theory Spec2Isabelle
  imports Main "HOL-Library.AList"
begin

section \<open>Strings\<close>

text \<open>
  Python strings are modelled as \<open>string\<close>. The model covers ASCII text, which is what
  XSD type names, facet values and OpenAPI keys consist of: \<open>lower_char\<close>, \<open>upper_char\<close>
  and the whitespace class are the ASCII parts of \<^verbatim>\<open>str.lower\<close>, \<^verbatim>\<open>str.upper\<close> and \<^verbatim>\<open>\s\<close>.
\<close>

definition startswith :: "string \<Rightarrow> string \<Rightarrow> bool" where
  "startswith s p = (take (length p) s = p)"

definition endswith :: "string \<Rightarrow> string \<Rightarrow> bool" where
  "endswith s p = (length p \<le> length s \<and> drop (length s - length p) s = p)"

text \<open>The substring test \<^verbatim>\<open>p in s\<close>.\<close>

fun contains :: "string \<Rightarrow> string \<Rightarrow> bool" where
  "contains [] p = (p = [])"
| "contains (c # cs) p = (startswith (c # cs) p \<or> contains cs p)"

definition upper_letters :: string where
  "upper_letters = ''ABCDEFGHIJKLMNOPQRSTUVWXYZ''"

definition lower_letters :: string where
  "lower_letters = ''abcdefghijklmnopqrstuvwxyz''"

definition lower_char :: "char \<Rightarrow> char" where
  "lower_char c = (case map_of (zip upper_letters lower_letters) c of Some d \<Rightarrow> d | None \<Rightarrow> c)"

definition upper_char :: "char \<Rightarrow> char" where
  "upper_char c = (case map_of (zip lower_letters upper_letters) c of Some d \<Rightarrow> d | None \<Rightarrow> c)"

definition lower :: "string \<Rightarrow> string" where
  "lower s = map lower_char s"

text \<open>\<^verbatim>\<open>str.capitalize\<close>: first character upper-cased, the rest lower-cased.\<close>

definition capitalize :: "string \<Rightarrow> string" where
  "capitalize s = (case s of [] \<Rightarrow> [] | c # cs \<Rightarrow> upper_char c # map lower_char cs)"

text \<open>
  The characters that \<^verbatim>\<open>\s\<close> and \<^verbatim>\<open>str.strip\<close> treat as whitespace: tab, line feed,
  vertical tab, form feed, carriage return, the four separators 0x1C..0x1F and the space.
\<close>

definition is_space :: "char \<Rightarrow> bool" where
  "is_space c = (c \<in> set [CHR 0x09, CHR 0x0A, CHR 0x0B, CHR 0x0C, CHR 0x0D,
                           CHR 0x1C, CHR 0x1D, CHR 0x1E, CHR 0x1F, CHR 0x20])"

definition strip :: "string \<Rightarrow> string" where
  "strip s = rev (dropWhile is_space (rev (dropWhile is_space s)))"

section \<open>JSON trees\<close>

text \<open>
  Schemas are the in-memory trees that \<^verbatim>\<open>json\<close> and \<^verbatim>\<open>yaml\<close> produce. A Python dict is
  an association list in insertion order: \<open>map_of d k\<close> is \<^verbatim>\<open>d.get(k)\<close>,
  \<open>AList.update k v d\<close> is \<^verbatim>\<open>d[k] = v\<close> (an existing key keeps its place, a new key goes
  last).
\<close>

datatype json =
    JNull
  | JBool bool
  | JInt int
  | JStr string
  | JList "json list"
  | JObj "(string \<times> json) list"

type_synonym dict = "(string \<times> json) list"

text \<open>Python truthiness of a value.\<close>

fun truthy :: "json \<Rightarrow> bool" where
  "truthy JNull = False"
| "truthy (JBool b) = b"
| "truthy (JInt i) = (i \<noteq> 0)"
| "truthy (JStr s) = (s \<noteq> [])"
| "truthy (JList xs) = (xs \<noteq> [])"
| "truthy (JObj d) = (d \<noteq> [])"

fun is_dict :: "json \<Rightarrow> bool" where
  "is_dict (JObj d) = True"
| "is_dict _ = False"

section \<open>PatternCanonicalizer: \<^verbatim>\<open>_convert_xsd_pattern_to_json\<close>\<close>

definition convert_xsd_pattern_to_json :: "string \<Rightarrow> string" where
  "convert_xsd_pattern_to_json xsd_pattern =
     (let pattern = xsd_pattern;
          pattern = (if CHR ''|'' \<in> set pattern
                        \<and> \<not> (startswith pattern ''('' \<and> endswith pattern '')'')
                     then ''('' @ pattern @ '')'' else pattern);
          pattern = (if \<not> startswith pattern ''^'' then ''^'' @ pattern else pattern);
          pattern = (if \<not> endswith pattern ''$'' then pattern @ ''$'' else pattern)
      in pattern)"

section \<open>TypeNameNormalizer: \<^verbatim>\<open>_convert_type_name\<close>\<close>

definition conversions :: "(string \<times> string) list" where
  "conversions =
     [(''string2-20'', ''String2To20''),
      (''string3-5'', ''String3To5''),
      (''string5-7'', ''String5To7''),
      (''string2-80'', ''String2To80''),
      (''alpha3-4'', ''Alpha3To4''),
      (''alphanum1-5'', ''AlphaNum1To5''),
      (''amt9v2n'', ''Amt9V2N''),
      (''percent2v3'', ''Percent2V3''),
      (''percent3v2'', ''Percent3V2''),
      (''value14'', ''Value14''),
      (''date8'', ''Date8''),
      (''time6'', ''Time6''),
      (''integer3'', ''Integer3''),
      (''integer5'', ''Integer5''),
      (''length4'', ''Length4''),
      (''sintype'', ''SINType''),
      (''yes1'', ''Yes1''),
      (''yesno1'', ''YesNo1'')]"

text \<open>The separator class \<^verbatim>\<open>[_\-\s]\<close> of the PascalCase fallback.\<close>

definition is_sep :: "char \<Rightarrow> bool" where
  "is_sep c = (c = CHR ''_'' \<or> c = CHR ''-'' \<or> is_space c)"

text \<open>
  \<^verbatim>\<open>re.split(r'[_\-\s]+', s)\<close>: the pieces between maximal runs of separators, an empty
  piece where the string starts or ends with a separator. \<open>acc\<close> is the current piece,
  reversed.
\<close>

function re_split :: "string \<Rightarrow> string \<Rightarrow> string list" where
  "re_split acc [] = [rev acc]"
| "re_split acc (c # cs) =
     (if is_sep c then rev acc # re_split [] (dropWhile is_sep cs)
      else re_split (c # acc) cs)"
  by pat_completeness auto
termination
  by (relation "measure (\<lambda>(acc, s). length s)")
     (auto simp: le_imp_less_Suc length_dropWhile_le)

text \<open>\<^verbatim>\<open>xsd_name.split(':')[-1]\<close>: what follows the last colon.\<close>

definition last_segment :: "string \<Rightarrow> string" where
  "last_segment s = rev (takeWhile (\<lambda>c. c \<noteq> CHR '':'') (rev s))"

definition convert_type_name :: "string \<Rightarrow> string" where
  "convert_type_name xsd_name =
     (if xsd_name = [] then ''UnknownType''
      else
        let xsd_name = (if CHR '':'' \<in> set xsd_name then last_segment xsd_name else xsd_name)
        in case map_of conversions (lower xsd_name) of
             Some canonical \<Rightarrow> canonical
           | None \<Rightarrow>
               concat (map capitalize (filter (\<lambda>word. word \<noteq> []) (re_split [] xsd_name))))"

section \<open>FacetExtractor: \<^verbatim>\<open>_convert_simple_type\<close> and \<^verbatim>\<open>_apply_facets\<close>\<close>

text \<open>
  The type object of the XSD library is read through \<^verbatim>\<open>hasattr\<close>: each attribute is an
  option, \<open>None\<close> when the object does not have it. A facet value is represented by what
  the code reads from it: \<^verbatim>\<open>int(v)\<close> for the lengths, \<^verbatim>\<open>str(v)\<close> for a pattern, \<^verbatim>\<open>list(v)\<close>
  for an enumeration. The \<^verbatim>\<open>print\<close> calls and the flag \<^verbatim>\<open>facets_found\<close>, which only
  selects a warning to print, are left out. So are the truth tests on a dict or a list
  that guard a loop or a lookup in it: on an empty container the guarded code does
  nothing.
\<close>

text \<open>The dict \<^verbatim>\<open>facets\<close>, read at its five keys.\<close>

record facet_map =
  fm_minLength :: "int option"
  fm_maxLength :: "int option"
  fm_length :: "int option"
  fm_pattern :: "string option"
  fm_enumeration :: "json list option"

record restriction =
  r_facets :: "facet_map option"

text \<open>An item of the dict \<^verbatim>\<open>constraints\<close>: the key with its value.\<close>

datatype constraint =
    Enumeration "json list"
  | Pattern string
  | MinLength int
  | MaxLength int
  | Length int
  | OtherConstraint string

text \<open>The \<^verbatim>\<open>value\<close> of a validator is read by \<^verbatim>\<open>str\<close> and by \<^verbatim>\<open>int\<close>.\<close>

record pyval =
  as_str :: string
  as_int :: int

record validator =
  v_class :: string
  v_enumeration :: "json list option"
  v_patterns :: "string list option"
  v_regexps :: "string list option"
  v_value :: "pyval option"
  v_pattern :: "string option"

text \<open>
  A node of \<^verbatim>\<open>type_obj.patterns\<close>. A recovered value is \<open>None\<close> when it is falsy and
  \<open>Some s\<close> when it is truthy with \<^verbatim>\<open>str\<close> form \<open>s\<close>; \<open>pn_get\<close> is the result of
  \<^verbatim>\<open>pat.get('value')\<close>, \<open>pn_str\<close> is \<^verbatim>\<open>str(pat)\<close>.
\<close>

record pattern_node =
  pn_value :: "string option option"
  pn_get :: "string option option"
  pn_attrib :: "(string \<times> string option) list option"
  pn_str :: string

datatype py_type = PyInt | PyFloat | PyBool | PyOther

text \<open>
  \<open>base_type\<close> is \<open>None\<close> without the attribute, \<open>Some None\<close> when it is falsy and
  \<open>Some (Some n)\<close> for a base type whose \<^verbatim>\<open>local_name\<close> is \<open>n\<close> (the empty string when
  it has none).
\<close>

record xsd_simple_type =
  facets :: "facet_map option"
  restrictions :: "restriction list option"
  base_type :: "string option option"
  constraints :: "constraint list option"
  validators :: "validator list option"
  patterns :: "pattern_node list option"
  python_type :: "py_type option"

definition apply_facets :: "dict \<Rightarrow> facet_map \<Rightarrow> dict" where
  "apply_facets json_type fm =
     (let json_type = (case fm_minLength fm of
                         Some n \<Rightarrow> AList.update ''minLength'' (JInt n) json_type
                       | None \<Rightarrow> json_type);
          json_type = (case fm_maxLength fm of
                         Some n \<Rightarrow> AList.update ''maxLength'' (JInt n) json_type
                       | None \<Rightarrow> json_type);
          json_type = (case fm_length fm of
                         Some n \<Rightarrow> AList.update ''maxLength'' (JInt n)
                                     (AList.update ''minLength'' (JInt n) json_type)
                       | None \<Rightarrow> json_type);
          json_type = (case fm_pattern fm of
                         Some p \<Rightarrow> AList.update ''pattern''
                                     (JStr (convert_xsd_pattern_to_json p)) json_type
                       | None \<Rightarrow> json_type);
          json_type = (case fm_enumeration fm of
                         Some e \<Rightarrow> AList.update ''enum'' (JList e) json_type
                       | None \<Rightarrow> json_type)
      in json_type)"

text \<open>Method 1: the direct \<^verbatim>\<open>facets\<close> attribute.\<close>

definition method1 :: "xsd_simple_type \<Rightarrow> dict \<Rightarrow> dict" where
  "method1 type_obj json_type =
     (case facets type_obj of
        Some fm \<Rightarrow> apply_facets json_type fm
      | None \<Rightarrow> json_type)"

text \<open>Method 2: the facets of each restriction.\<close>

definition apply_restriction :: "restriction \<Rightarrow> dict \<Rightarrow> dict" where
  "apply_restriction r json_type =
     (case r_facets r of
        Some fm \<Rightarrow> apply_facets json_type fm
      | None \<Rightarrow> json_type)"

definition method2 :: "xsd_simple_type \<Rightarrow> dict \<Rightarrow> dict" where
  "method2 type_obj json_type =
     (case restrictions type_obj of
        Some rs \<Rightarrow> fold apply_restriction rs json_type
      | None \<Rightarrow> json_type)"

text \<open>Method 3: the items of \<^verbatim>\<open>constraints\<close>, in the dict's order.\<close>

fun apply_constraint :: "constraint \<Rightarrow> dict \<Rightarrow> dict" where
  "apply_constraint (Enumeration e) json_type = AList.update ''enum'' (JList e) json_type"
| "apply_constraint (Pattern p) json_type =
     AList.update ''pattern'' (JStr (convert_xsd_pattern_to_json p)) json_type"
| "apply_constraint (MinLength n) json_type = AList.update ''minLength'' (JInt n) json_type"
| "apply_constraint (MaxLength n) json_type = AList.update ''maxLength'' (JInt n) json_type"
| "apply_constraint (Length n) json_type =
     AList.update ''maxLength'' (JInt n) (AList.update ''minLength'' (JInt n) json_type)"
| "apply_constraint (OtherConstraint k) json_type = json_type"

definition method3 :: "xsd_simple_type \<Rightarrow> dict \<Rightarrow> dict" where
  "method3 type_obj json_type =
     (if base_type type_obj \<noteq> None then
        (case constraints type_obj of
           Some cs \<Rightarrow> fold apply_constraint cs json_type
         | None \<Rightarrow> json_type)
      else json_type)"

text \<open>
  Method 4: the validators, by class name. Of a list of patterns only the first is taken
  (the loop breaks after its first round).
\<close>

definition first_pattern :: "string list \<Rightarrow> dict \<Rightarrow> dict" where
  "first_pattern ps json_type =
     (case ps of
        [] \<Rightarrow> json_type
      | pat # rest \<Rightarrow> AList.update ''pattern'' (JStr (convert_xsd_pattern_to_json pat)) json_type)"

text \<open>The first test of the loop body: a validator with a non-empty enumeration.\<close>

definition validator_enumeration :: "validator \<Rightarrow> dict \<Rightarrow> dict" where
  "validator_enumeration v json_type =
     (case v_enumeration v of
        Some e \<Rightarrow> if e \<noteq> [] then AList.update ''enum'' (JList e) json_type else json_type
      | None \<Rightarrow> json_type)"

text \<open>The chain of tests on the class name that follows it.\<close>

definition validator_facet :: "validator \<Rightarrow> dict \<Rightarrow> dict" where
  "validator_facet v json_type =
     (if v_class v = ''XsdPatternFacets'' then
        (case v_patterns v of
           Some ps \<Rightarrow> first_pattern ps json_type
         | None \<Rightarrow>
            (case v_regexps v of
               Some ps \<Rightarrow> first_pattern ps json_type
             | None \<Rightarrow>
                (case v_value v of
                   Some x \<Rightarrow> AList.update ''pattern''
                               (JStr (convert_xsd_pattern_to_json (as_str x))) json_type
                 | None \<Rightarrow> json_type)))
      else if v_class v = ''XsdMinLengthFacet'' \<and> v_value v \<noteq> None then
        AList.update ''minLength'' (JInt (as_int (the (v_value v)))) json_type
      else if v_class v = ''XsdMaxLengthFacet'' \<and> v_value v \<noteq> None then
        AList.update ''maxLength'' (JInt (as_int (the (v_value v)))) json_type
      else if v_class v = ''XsdLengthFacet'' \<and> v_value v \<noteq> None then
        AList.update ''maxLength'' (JInt (as_int (the (v_value v))))
          (AList.update ''minLength'' (JInt (as_int (the (v_value v)))) json_type)
      else json_type)"

definition apply_validator :: "validator \<Rightarrow> dict \<Rightarrow> dict" where
  "apply_validator v json_type = validator_facet v (validator_enumeration v json_type)"

definition method4 :: "xsd_simple_type \<Rightarrow> dict \<Rightarrow> dict" where
  "method4 type_obj json_type =
     (case validators type_obj of
        Some vs \<Rightarrow> fold apply_validator vs json_type
      | None \<Rightarrow> json_type)"

text \<open>
  Method 5: the pattern nodes of the type object. The last resort is a regular-expression
  search in \<^verbatim>\<open>str(pat)\<close> for the leftmost place where \<^verbatim>\<open>value=\<close>, a quote, a non-empty run
  of non-quotes and a quote follow each other; the run is the group.
\<close>

definition is_quote :: "char \<Rightarrow> bool" where
  "is_quote c = (c = CHR 0x22 \<or> c = CHR 0x27)"

definition match_value_here :: "string \<Rightarrow> string option" where
  "match_value_here s =
     (if startswith s ''value='' then
        (case drop 6 s of
           [] \<Rightarrow> None
         | q # rest \<Rightarrow>
            if is_quote q \<and> takeWhile (\<lambda>c. \<not> is_quote c) rest \<noteq> []
               \<and> dropWhile (\<lambda>c. \<not> is_quote c) rest \<noteq> []
            then Some (takeWhile (\<lambda>c. \<not> is_quote c) rest) else None)
      else None)"

fun search_value :: "string \<Rightarrow> string option" where
  "search_value [] = None"
| "search_value (c # cs) =
     (case match_value_here (c # cs) of
        Some g \<Rightarrow> Some g
      | None \<Rightarrow> search_value cs)"

definition pattern_value :: "pattern_node \<Rightarrow> string option" where
  "pattern_value pat =
     (case pn_value pat of
        Some v \<Rightarrow> v
      | None \<Rightarrow>
         (case pn_get pat of
            Some v \<Rightarrow> v
          | None \<Rightarrow>
             (if pn_attrib pat \<noteq> None \<and> map_of (the (pn_attrib pat)) ''value'' \<noteq> None
              then the (map_of (the (pn_attrib pat)) ''value'')
              else if strip (pn_str pat) \<noteq> [] then search_value (pn_str pat)
              else None)))"

fun scan_patterns :: "pattern_node list \<Rightarrow> dict \<Rightarrow> dict" where
  "scan_patterns [] json_type = json_type"
| "scan_patterns (pat # pats) json_type =
     (case pattern_value pat of
        Some pv \<Rightarrow> AList.update ''pattern'' (JStr (convert_xsd_pattern_to_json pv)) json_type
      | None \<Rightarrow> scan_patterns pats json_type)"

definition method5 :: "xsd_simple_type \<Rightarrow> dict \<Rightarrow> dict" where
  "method5 type_obj json_type =
     (case patterns type_obj of
        Some pats \<Rightarrow> scan_patterns pats json_type
      | None \<Rightarrow> json_type)"

text \<open>Method 6: the validators of class \<^verbatim>\<open>XsdPatternFacet\<close>.\<close>

definition apply_pattern_facet :: "validator \<Rightarrow> dict \<Rightarrow> dict" where
  "apply_pattern_facet v json_type =
     (if v_class v = ''XsdPatternFacet'' then
        (case v_value v of
           Some x \<Rightarrow> AList.update ''pattern''
                       (JStr (convert_xsd_pattern_to_json (as_str x))) json_type
         | None \<Rightarrow>
            (case v_pattern v of
               Some p \<Rightarrow> AList.update ''pattern''
                           (JStr (convert_xsd_pattern_to_json p)) json_type
             | None \<Rightarrow> json_type))
      else json_type)"

definition method6 :: "xsd_simple_type \<Rightarrow> dict \<Rightarrow> dict" where
  "method6 type_obj json_type =
     (case validators type_obj of
        Some vs \<Rightarrow> fold apply_pattern_facet vs json_type
      | None \<Rightarrow> json_type)"

text \<open>The JSON type from the Python type of the base, or from the base type's name.\<close>

definition base_kind :: "xsd_simple_type \<Rightarrow> dict \<Rightarrow> dict" where
  "base_kind type_obj json_type =
     (case python_type type_obj of
        Some pt \<Rightarrow>
          (if pt = PyInt then AList.update ''type'' (JStr ''integer'') json_type
           else if pt = PyFloat then AList.update ''type'' (JStr ''number'') json_type
           else if pt = PyBool then AList.update ''type'' (JStr ''boolean'') json_type
           else json_type)
      | None \<Rightarrow>
          (case base_type type_obj of
             Some (Some base_name) \<Rightarrow>
               (if base_name \<in> set [''int'', ''integer'', ''long'', ''short'']
                then AList.update ''type'' (JStr ''integer'') json_type
                else if base_name \<in> set [''float'', ''double'', ''decimal'']
                then AList.update ''type'' (JStr ''number'') json_type
                else if base_name \<in> set [''boolean'']
                then AList.update ''type'' (JStr ''boolean'') json_type
                else json_type)
           | _ \<Rightarrow> json_type))"

definition convert_simple_type :: "xsd_simple_type \<Rightarrow> dict" where
  "convert_simple_type type_obj =
     base_kind type_obj
       (method6 type_obj (method5 type_obj (method4 type_obj
          (method3 type_obj (method2 type_obj (method1 type_obj
             [(''type'', JStr ''string'')]))))))"

text \<open>
  The value a list of strategies leaves in a field when each strategy overwrites what is
  there: that of the last strategy which found one.
\<close>

fun last_found :: "'a option list \<Rightarrow> 'a option" where
  "last_found [] = None"
| "last_found (x # xs) = (case last_found xs of Some v \<Rightarrow> Some v | None \<Rightarrow> x)"

section \<open>ComplexTypeProjector: \<^verbatim>\<open>_convert_complex_type\<close>\<close>

text \<open>
  Of an element or attribute declaration the code reads its name, the name of its type
  (\<open>None\<close> when it has no type, or a type without a name), its minimum occurrence count
  and its use mode.
\<close>

record xsd_element =
  local_name :: string
  e_type_name :: "string option"
  min_occurs :: "int option"

record xsd_attribute =
  a_type_name :: "string option"
  a_use :: "string option"

text \<open>
  \<open>content_elements\<close> is what \<^verbatim>\<open>type_obj.content.iter_elements()\<close> yields, \<open>None\<close> when the
  type has no such content; \<open>attributes\<close> is the dict of attribute declarations.
\<close>

record xsd_complex_type =
  content_elements :: "xsd_element list option"
  attributes :: "(string \<times> xsd_attribute) list option"

definition type_ref :: "string option \<Rightarrow> json" where
  "type_ref type_name =
     (case type_name of
        Some n \<Rightarrow>
          if n \<noteq> [] then JObj [(''$ref'', JStr (''#/definitions/'' @ convert_type_name n))]
          else JObj [(''type'', JStr ''string'')]
      | None \<Rightarrow> JObj [(''type'', JStr ''string'')])"

definition get_property_type :: "xsd_element \<Rightarrow> json" where
  "get_property_type element = type_ref (e_type_name element)"

definition get_attribute_type :: "xsd_attribute \<Rightarrow> json" where
  "get_attribute_type attr = type_ref (a_type_name attr)"

text \<open>One round of each loop, on the pair of the properties and the required fields.\<close>

definition add_element :: "xsd_element \<Rightarrow> dict \<times> string list \<Rightarrow> dict \<times> string list" where
  "add_element element st =
     (AList.update (local_name element) (get_property_type element) (fst st),
      if (case min_occurs element of Some n \<Rightarrow> n > 0 | None \<Rightarrow> False)
      then snd st @ [local_name element] else snd st)"

definition add_attribute ::
  "string \<times> xsd_attribute \<Rightarrow> dict \<times> string list \<Rightarrow> dict \<times> string list" where
  "add_attribute item st =
     (AList.update (fst item) (get_attribute_type (snd item)) (fst st),
      if a_use (snd item) = Some ''required'' then snd st @ [fst item] else snd st)"

definition collect_members :: "xsd_complex_type \<Rightarrow> dict \<times> string list" where
  "collect_members type_obj =
     (let st = ([], []);
          st = (case content_elements type_obj of
                  Some elements \<Rightarrow> fold add_element elements st
                | None \<Rightarrow> st);
          st = (case attributes type_obj of
                  Some attrs \<Rightarrow> fold add_attribute attrs st
                | None \<Rightarrow> st)
      in st)"

definition required_fields :: "xsd_complex_type \<Rightarrow> string list" where
  "required_fields type_obj = snd (collect_members type_obj)"

definition convert_complex_type :: "xsd_complex_type \<Rightarrow> string \<Rightarrow> dict" where
  "convert_complex_type type_obj name =
     (let json_type = [(''type'', JStr ''object''),
                       (''additionalProperties'', JBool False),
                       (''properties'', JObj (fst (collect_members type_obj))),
                       (''description'', JStr (''Complex type: '' @ name))]
      in if required_fields type_obj \<noteq> []
         then AList.update ''required'' (JList (map JStr (required_fields type_obj))) json_type
         else json_type)"

section \<open>CanonicalSchemaRegistry: \<^verbatim>\<open>schema_mappings\<close>\<close>

text \<open>The registry maps a canonical name to its definition, in insertion order.\<close>

type_synonym registry = "(string \<times> dict) list"

definition find_schema_key_case_insensitive :: "registry \<Rightarrow> string \<Rightarrow> string option" where
  "find_schema_key_case_insensitive schema_mappings schema_name =
     (if schema_name \<in> set (map fst schema_mappings) then Some schema_name
      else List.find (\<lambda>key. lower key = lower schema_name) (map fst schema_mappings))"

text \<open>A found key counts only when it is truthy, that is, not the empty string.\<close>

definition found_key :: "registry \<Rightarrow> string \<Rightarrow> string option" where
  "found_key schema_mappings schema_name =
     (case find_schema_key_case_insensitive schema_mappings schema_name of
        Some key \<Rightarrow> if key \<noteq> [] then Some key else None
      | None \<Rightarrow> None)"

section \<open>PropertyEnhancer\<close>

text \<open>The exceptions the enhancement can raise.\<close>

datatype py_error = AttributeError | KeyError

definition field_mappings :: "(string \<times> string) list" where
  "field_mappings =
     [(''Date'', ''Date8''),
      (''Time'', ''Time6''),
      (''MgmtCode'', ''MgmtCodeType''),
      (''DlrCode'', ''Length4''),
      (''IntCode'', ''Alpha3To4''),
      (''SrcID'', ''String15''),
      (''FundAcctID'', ''String15''),
      (''FundID'', ''String3To5''),
      (''OrdID'', ''String5To7''),
      (''AmtValue'', ''Value14''),
      (''SrcType'', ''SrcType''),
      (''ActnCode'', ''ActnCode''),
      (''AcctDesig'', ''AcctDesigType''),
      (''AmtType'', ''AmtType'')]"

text \<open>\<^verbatim>\<open>if k in src: dst[k] = src[k]\<close>\<close>

definition copy_key :: "string \<Rightarrow> dict \<Rightarrow> dict \<Rightarrow> dict" where
  "copy_key k src dst =
     (case map_of src k of
        Some v \<Rightarrow> AList.update k v dst
      | None \<Rightarrow> dst)"

text \<open>
  \<^verbatim>\<open>if original: dst[k] = original\<close>, where \<open>original\<close> is the earlier \<^verbatim>\<open>dst.get(k)\<close>:
  \<open>None\<close> for a missing key.
\<close>

definition restore_key :: "string \<Rightarrow> json option \<Rightarrow> dict \<Rightarrow> dict" where
  "restore_key k original dst =
     (case original of
        Some v \<Rightarrow> if truthy v then AList.update k v dst else dst
      | None \<Rightarrow> dst)"

definition copy_validation :: "dict \<Rightarrow> dict \<Rightarrow> dict" where
  "copy_validation source_schema prop_def =
     (let original_docs = map_of prop_def ''externalDocs'';
          original_example = map_of prop_def ''example'';
          original_description = map_of prop_def ''description'';
          prop_def = copy_key ''type'' source_schema prop_def;
          prop_def = copy_key ''pattern'' source_schema prop_def;
          prop_def = copy_key ''minLength'' source_schema prop_def;
          prop_def = copy_key ''maxLength'' source_schema prop_def;
          prop_def = copy_key ''enum'' source_schema prop_def;
          prop_def = copy_key ''format'' source_schema prop_def;
          prop_def = restore_key ''externalDocs'' original_docs prop_def;
          prop_def = restore_key ''example'' original_example prop_def;
          prop_def = restore_key ''description'' original_description prop_def
      in prop_def)"

text \<open>
  The loop of \<^verbatim>\<open>_enhance_property\<close> over the field mappings, left at the first match.
  A property that is not a dict has no \<^verbatim>\<open>get\<close>: the first match raises.
\<close>

fun enhance_property_loop ::
  "registry \<Rightarrow> (string \<times> string) list \<Rightarrow> string \<Rightarrow> json \<Rightarrow> py_error + json" where
  "enhance_property_loop schema_mappings [] prop_name prop_def = Inr prop_def"
| "enhance_property_loop schema_mappings ((field_pattern, schema_type) # rest) prop_name prop_def =
     (case found_key schema_mappings schema_type of
        Some schema_key \<Rightarrow>
          if contains prop_name field_pattern then
            (case map_of schema_mappings schema_key of
               None \<Rightarrow> Inl KeyError
             | Some source_schema \<Rightarrow>
                (case prop_def of
                   JObj d \<Rightarrow> Inr (JObj (copy_validation source_schema d))
                 | _ \<Rightarrow> Inl AttributeError))
          else enhance_property_loop schema_mappings rest prop_name prop_def
      | None \<Rightarrow> enhance_property_loop schema_mappings rest prop_name prop_def)"

definition enhance_property :: "registry \<Rightarrow> string \<Rightarrow> json \<Rightarrow> py_error + json" where
  "enhance_property schema_mappings prop_name prop_def =
     enhance_property_loop schema_mappings field_mappings prop_name prop_def"

fun enhance_properties :: "registry \<Rightarrow> dict \<Rightarrow> py_error + dict" where
  "enhance_properties schema_mappings [] = Inr []"
| "enhance_properties schema_mappings ((prop_name, prop_def) # rest) =
     (case enhance_property schema_mappings prop_name prop_def of
        Inl e \<Rightarrow> Inl e
      | Inr prop_def' \<Rightarrow>
         (case enhance_properties schema_mappings rest of
            Inl e \<Rightarrow> Inl e
          | Inr rest' \<Rightarrow> Inr ((prop_name, prop_def') # rest')))"

text \<open>\<^verbatim>\<open>_enhance_schema_object\<close>; a \<^verbatim>\<open>properties\<close> value that is not a dict has no \<^verbatim>\<open>items\<close>.\<close>

definition enhance_schema_object :: "registry \<Rightarrow> dict \<Rightarrow> bool \<Rightarrow> py_error + dict" where
  "enhance_schema_object schema_mappings schema strict_mode =
     (if map_of schema ''type'' = Some (JStr ''object'') then
        (let schema = (if strict_mode \<and> map_of schema ''additionalProperties'' = None
                       then AList.update ''additionalProperties'' (JBool False) schema
                       else schema)
         in case map_of schema ''properties'' of
              None \<Rightarrow> Inr schema
            | Some (JObj props) \<Rightarrow>
               (case enhance_properties schema_mappings props of
                  Inl e \<Rightarrow> Inl e
                | Inr props' \<Rightarrow> Inr (AList.update ''properties'' (JObj props') schema))
            | Some _ \<Rightarrow> Inl AttributeError)
      else Inr schema)"

text \<open>The first path of \<^verbatim>\<open>_enhance_top_level_schema\<close>: the schema's name is a mapping key.\<close>

definition copy_top_level :: "dict \<Rightarrow> dict \<Rightarrow> dict" where
  "copy_top_level source_schema schema_def =
     (let original_docs = map_of schema_def ''externalDocs'';
          original_example = map_of schema_def ''example'';
          original_description = map_of schema_def ''description'';
          schema_def = copy_key ''pattern'' source_schema schema_def;
          schema_def = copy_key ''minLength'' source_schema schema_def;
          schema_def = copy_key ''maxLength'' source_schema schema_def;
          schema_def = copy_key ''enum'' source_schema schema_def;
          schema_def = copy_key ''format'' source_schema schema_def;
          schema_def = restore_key ''externalDocs'' original_docs schema_def;
          schema_def = restore_key ''example'' original_example schema_def;
          schema_def = restore_key ''description'' original_description schema_def
      in schema_def)"

text \<open>Its second path: the registry entry found under the schema's own name.\<close>

definition apply_json_validation :: "dict \<Rightarrow> dict \<Rightarrow> dict" where
  "apply_json_validation json_validation schema_def =
     (let schema_def = copy_key ''enum'' json_validation schema_def;
          schema_def = copy_key ''pattern'' json_validation schema_def;
          schema_def = copy_key ''minLength'' json_validation schema_def;
          schema_def = copy_key ''maxLength'' json_validation schema_def;
          schema_def = (case map_of json_validation ''description'' of
                          Some v \<Rightarrow> if map_of schema_def ''description'' = None
                                    then AList.update ''description'' v schema_def
                                    else schema_def
                        | None \<Rightarrow> schema_def)
      in schema_def)"

definition fallback_path :: "registry \<Rightarrow> string \<Rightarrow> dict \<Rightarrow> py_error + dict" where
  "fallback_path schema_mappings schema_name schema_def =
     (case found_key schema_mappings schema_name of
        Some schema_key \<Rightarrow>
          (case map_of schema_mappings schema_key of
             None \<Rightarrow> Inl KeyError
           | Some json_validation \<Rightarrow> Inr (apply_json_validation json_validation schema_def))
      | None \<Rightarrow> Inr schema_def)"

definition enhance_top_level_schema :: "registry \<Rightarrow> string \<Rightarrow> dict \<Rightarrow> py_error + dict" where
  "enhance_top_level_schema schema_mappings schema_name schema_def =
     (if map_of schema_def ''type'' \<noteq> Some (JStr ''string'') then Inr schema_def
      else
        case map_of field_mappings schema_name of
          Some validation_type \<Rightarrow>
            (case found_key schema_mappings validation_type of
               Some schema_key \<Rightarrow>
                 (case map_of schema_mappings schema_key of
                    None \<Rightarrow> Inl KeyError
                  | Some source_schema \<Rightarrow> Inr (copy_top_level source_schema schema_def))
             | None \<Rightarrow> fallback_path schema_mappings schema_name schema_def)
        | None \<Rightarrow> fallback_path schema_mappings schema_name schema_def)"

text \<open>
  \<^verbatim>\<open>_enhance_existing_schemas\<close>: the entries that are dicts are enhanced, the others are
  passed over. The count of enhanced schemas, which only feeds the log, is left out.
\<close>

fun enhance_existing_schemas :: "registry \<Rightarrow> dict \<Rightarrow> bool \<Rightarrow> py_error + dict" where
  "enhance_existing_schemas schema_mappings [] strict_mode = Inr []"
| "enhance_existing_schemas schema_mappings ((name, schema) # rest) strict_mode =
     (case (case schema of
              JObj d \<Rightarrow>
                (case enhance_schema_object schema_mappings d strict_mode of
                   Inl e \<Rightarrow> Inl e
                 | Inr d' \<Rightarrow>
                    (case enhance_top_level_schema schema_mappings name d' of
                       Inl e \<Rightarrow> Inl e
                     | Inr d'' \<Rightarrow> Inr (JObj d'')))
            | _ \<Rightarrow> Inr schema) of
        Inl e \<Rightarrow> Inl e
      | Inr schema' \<Rightarrow>
         (case enhance_existing_schemas schema_mappings rest strict_mode of
            Inl e \<Rightarrow> Inl e
          | Inr rest' \<Rightarrow> Inr ((name, schema') # rest')))"

section \<open>Field-level validations: \<^verbatim>\<open>_apply_validations_to_schemas\<close>\<close>

fun first_error :: "(py_error + unit) list \<Rightarrow> py_error + unit" where
  "first_error [] = Inr ()"
| "first_error (r # rs) = (case r of Inl e \<Rightarrow> Inl e | Inr u \<Rightarrow> first_error rs)"

text \<open>
  \<^verbatim>\<open>_apply_validation_to_schema\<close> changes nothing (the string validations are \<^verbatim>\<open>pass\<close>); it
  walks the properties that are dicts, and a \<^verbatim>\<open>properties\<close> value that is not a dict has
  no \<^verbatim>\<open>values\<close>. Both callers reach it on dicts only; the last equation stands for their
  \<^verbatim>\<open>isinstance\<close> test.
\<close>

function (sequential) apply_validation_to_schema :: "json \<Rightarrow> py_error + unit" where
  "apply_validation_to_schema (JObj schema_def) =
     (if map_of schema_def ''type'' = Some (JStr ''string'') then Inr ()
      else if map_of schema_def ''type'' = Some (JStr ''object'') then
        (case map_of schema_def ''properties'' of
           None \<Rightarrow> Inr ()
         | Some (JObj props) \<Rightarrow>
             first_error (map (\<lambda>item. apply_validation_to_schema (snd item))
                            (filter (\<lambda>item. is_dict (snd item)) props))
         | Some _ \<Rightarrow> Inl AttributeError)
      else Inr ())"
| "apply_validation_to_schema _ = Inr ()"
  by pat_completeness auto
termination
proof (relation "measure size")
  show "wf (measure size)" by simp
next
  fix schema_def :: dict and x2 props and item :: "string \<times> json"
  assume p: "map_of schema_def ''properties'' = Some x2" "x2 = JObj props"
    and i: "item \<in> set (filter (\<lambda>item. is_dict (snd item)) props)"
  have smaller: "\<And>(d :: dict) k v. (k, v) \<in> set d \<Longrightarrow> size v < size (JObj d)"
  proof -
    fix d :: dict and k v
    assume "(k, v) \<in> set d"
    then show "size v < size (JObj d)"
      by (induction d) auto
  qed
  from p have "(''properties'', JObj props) \<in> set schema_def"
    by (simp add: map_of_SomeD)
  then have "size (JObj props) < size (JObj schema_def)" by (rule smaller)
  moreover from i have "(fst item, snd item) \<in> set props" by simp
  then have "size (snd item) < size (JObj props)" by (rule smaller)
  ultimately show "(snd item, JObj schema_def) \<in> measure size" by simp
qed

definition apply_validations_to_schemas :: "dict \<Rightarrow> py_error + unit" where
  "apply_validations_to_schemas schemas =
     first_error (map (\<lambda>item. apply_validation_to_schema (snd item))
                    (filter (\<lambda>item. is_dict (snd item)) schemas))"

section \<open>Overlays\<close>

text \<open>
  Of the document the overlays read the \<^verbatim>\<open>info\<close> mapping and \<^verbatim>\<open>components.schemas\<close>; each
  is \<open>None\<close> when its key is missing. The list \<^verbatim>\<open>applied_enhancements\<close>, a log of notes,
  is left out.
\<close>

record components_section =
  schemas :: "dict option"

record swagger_data =
  info :: "dict option"
  components :: "components_section option"

subsection \<open>EnumOverlay: \<^verbatim>\<open>_add_enum_types\<close>\<close>

definition enums :: dict where
  "enums =
     [(''SrcType'', JObj
         [(''type'', JStr ''string''),
          (''enum'', JList (map JStr [''D'', ''I'', ''F''])),
          (''description'',
           JStr ''Source type - D for Dealer, I for Intermediary, F for Fund'')]),
      (''ActnCode'', JObj
         [(''type'', JStr ''string''),
          (''enum'', JList (map JStr [''NEW'', ''CHG'', ''CAN'', ''CAX'', ''AOT'', ''REV''])),
          (''description'', JStr ''Action code'')]),
      (''AcctDesigType'', JObj
         [(''type'', JStr ''string''),
          (''enum'', JList (map JStr [''1'', ''2'', ''3''])),
          (''description'', JStr ''Account designation'')]),
      (''AmtType'', JObj
         [(''type'', JStr ''string''),
          (''enum'', JList (map JStr [''A'', ''D'', ''F'', ''M'', ''P'', ''S'', ''T'', ''B'',
                                      ''C'', ''J'', ''L'', ''G'', ''H''])),
          (''description'', JStr ''Amount type'')]),
      (''SettlMethd'', JObj
         [(''type'', JStr ''string''),
          (''enum'', JList (map JStr [''1'', ''2'', ''3'', ''4'', ''5'', ''6''])),
          (''description'', JStr ''Settlement method'')]),
      (''RspnSrc'', JObj
         [(''type'', JStr ''string''),
          (''enum'', JList (map JStr [''I'', ''F'', ''N''])),
          (''description'', JStr ''Response source'')]),
      (''RtnCode'', JObj
         [(''type'', JStr ''string''),
          (''enum'', JList (map JStr [''00'', ''01'', ''98'', ''99'', ''50''])),
          (''description'', JStr ''Return code'')])]"

definition add_enum_types :: "dict \<Rightarrow> dict" where
  "add_enum_types schemas_in =
     fold (\<lambda>item acc. AList.update (fst item) (snd item) acc) enums schemas_in"

subsection \<open>ErrorSchemaOverlay: \<^verbatim>\<open>_enhance_error_schemas\<close>\<close>

text \<open>The pattern of \<^verbatim>\<open>ErrorCode\<close> is a caret, a backslash and \<^verbatim>\<open>d{3}$\<close>.\<close>

definition error_schemas :: dict where
  "error_schemas =
     [(''ErrorCode'', JObj
         [(''type'', JStr ''string''),
          (''pattern'', JStr (''^'' @ [CHR 0x5C] @ ''d{3}$'')),
          (''description'', JStr ''3-digit error code'')]),
      (''CorrlatnID'', JObj
         [(''type'', JStr ''string''),
          (''maxLength'', JInt 48),
          (''description'', JStr ''Correlation ID for tracking'')])]"

definition insert_if_absent :: "string \<times> json \<Rightarrow> dict \<Rightarrow> dict" where
  "insert_if_absent item acc =
     (if fst item \<notin> set (map fst acc) then AList.update (fst item) (snd item) acc else acc)"

definition enhance_error_schemas :: "swagger_data \<Rightarrow> swagger_data" where
  "enhance_error_schemas doc =
     (case components doc of
        None \<Rightarrow> doc
      | Some comps \<Rightarrow>
         (case schemas comps of
            None \<Rightarrow> doc
          | Some s \<Rightarrow>
             doc\<lparr>components :=
                   Some (comps\<lparr>schemas := Some (fold insert_if_absent error_schemas s)\<rparr>)\<rparr>))"

subsection \<open>TransactionTypeOverlay: \<^verbatim>\<open>_add_transaction_type_validations\<close>\<close>





section \<open>Notions used in the properties\<close>

text \<open>
  The members of a complex type that are required: the elements whose minimum occurrence
  count is greater than zero, and the attributes whose use mode is \<^verbatim>\<open>required\<close>.
\<close>

definition required_elements :: "xsd_complex_type \<Rightarrow> xsd_element list" where
  "required_elements type_obj =
     (case content_elements type_obj of
        Some elements \<Rightarrow>
          filter (\<lambda>e. case min_occurs e of Some n \<Rightarrow> n > 0 | None \<Rightarrow> False) elements
      | None \<Rightarrow> [])"

definition required_attributes :: "xsd_complex_type \<Rightarrow> (string \<times> xsd_attribute) list" where
  "required_attributes type_obj =
     (case attributes type_obj of
        Some attrs \<Rightarrow> filter (\<lambda>a. a_use (snd a) = Some ''required'') attrs
      | None \<Rightarrow> [])"

text \<open>\<^verbatim>\<open>swagger_data['components']['schemas']\<close>, when both keys are there.\<close>

definition doc_schemas :: "swagger_data \<Rightarrow> dict option" where
  "doc_schemas doc =
     (case components doc of
        None \<Rightarrow> None
      | Some comps \<Rightarrow> schemas comps)"

text \<open>The attribute \<open>k\<close> of a node: \<^verbatim>\<open>node.get(k)\<close> on a dict, nothing on any other value.\<close>

definition attribute :: "json \<Rightarrow> string \<Rightarrow> json option" where
  "attribute node k = (case node of JObj d \<Rightarrow> map_of d k | _ \<Rightarrow> None)"

text \<open>The metadata attributes of a property.\<close>

definition metadata_keys :: "string list" where
  "metadata_keys = [''description'', ''example'', ''externalDocs'']"

text \<open>
  The six passes of \<^verbatim>\<open>_convert_simple_type\<close> in their order, and what a pass discovers for
  a field: the value it writes there when it runs alone, on an empty record.
\<close>

definition strategies :: "(xsd_simple_type \<Rightarrow> dict \<Rightarrow> dict) list" where
  "strategies = [method1, method2, method3, method4, method5, method6]"

definition discovered ::
  "(xsd_simple_type \<Rightarrow> dict \<Rightarrow> dict) \<Rightarrow> xsd_simple_type \<Rightarrow> string \<Rightarrow> json option" where
  "discovered method type_obj k = map_of (method type_obj []) k"

definition constraint_fields :: "string list" where
  "constraint_fields = [''minLength'', ''maxLength'', ''pattern'', ''enum'']"

text \<open>
  A schema entry the enhancement can work on: when it is an object-kind dict with
  properties, the properties are a dict of dicts.
\<close>

definition well_formed_schema :: "json \<Rightarrow> bool" where
  "well_formed_schema schema =
     (case schema of
        JObj d \<Rightarrow>
          (if map_of d ''type'' = Some (JStr ''object'') then
             (case map_of d ''properties'' of
                None \<Rightarrow> True
              | Some (JObj props) \<Rightarrow> list_all (\<lambda>item. is_dict (snd item)) props
              | Some _ \<Rightarrow> False)
           else True)
      | _ \<Rightarrow> True)"

section \<open>Properties of the string helpers\<close>

lemma startswith_Nil [simp]: "startswith s []"
  by (simp add: startswith_def)

lemma startswith_Nil_left [simp]: "startswith [] (c # p) = False"
  by (simp add: startswith_def)

lemma startswith_Cons [simp]: "startswith (c # s) (d # p) = (c = d \<and> startswith s p)"
  by (simp add: startswith_def)

lemma endswith_rev: "endswith s p = startswith (rev s) (rev p)"
proof (cases "length p \<le> length s")
  case True
  then show ?thesis
    by (auto simp: endswith_def startswith_def take_rev rev_swap)
next
  case False
  then have "length (take (length p) (rev s)) \<noteq> length (rev p)" by simp
  then have "take (length p) (rev s) \<noteq> rev p" by metis
  with False show ?thesis
    by (simp add: endswith_def startswith_def)
qed

lemma endswith_one: "endswith s [c] = (s \<noteq> [] \<and> last s = c)"
  by (cases s rule: rev_cases) (simp_all add: endswith_rev)

section \<open>The pattern canonicalizer\<close>

lemma canonicalize_starts: "startswith (convert_xsd_pattern_to_json p) ''^''"
  by (cases p) (auto simp: convert_xsd_pattern_to_json_def Let_def)

lemma canonicalize_ends: "endswith (convert_xsd_pattern_to_json p) ''$''"
  by (auto simp: convert_xsd_pattern_to_json_def Let_def endswith_one)

text \<open>
  A second pass changes nothing when the pattern has no alternation bar: both anchors are
  found in place.
\<close>

lemma canonicalize_no_alternation:
  "CHR ''|'' \<notin> set p \<Longrightarrow>
   convert_xsd_pattern_to_json (convert_xsd_pattern_to_json p) = convert_xsd_pattern_to_json p"
  by (cases p) (auto simp: convert_xsd_pattern_to_json_def Let_def endswith_one)

text \<open>
  With an alternation bar every pass wraps and anchors its input anew: the output of the
  first pass starts with a caret, not with a parenthesis, so the group test fails.
\<close>

lemma canonicalize_keeps_chars: "set p \<subseteq> set (convert_xsd_pattern_to_json p)"
  by (auto simp: convert_xsd_pattern_to_json_def Let_def)

lemma canonicalize_alternation_rewraps:
  assumes "CHR ''|'' \<in> set p"
  shows "convert_xsd_pattern_to_json (convert_xsd_pattern_to_json p)
           = ''^('' @ convert_xsd_pattern_to_json p @ '')$''"
proof -
  from canonicalize_starts [of p] obtain r
    where q: "convert_xsd_pattern_to_json p = CHR ''^'' # r"
    by (cases "convert_xsd_pattern_to_json p") auto
  from assms canonicalize_keeps_chars [of p]
  have "CHR ''|'' \<in> set (convert_xsd_pattern_to_json p)" by blast
  with q have b: "CHR ''|'' \<in> set r" by simp
  have "convert_xsd_pattern_to_json (CHR ''^'' # r) = ''^('' @ (CHR ''^'' # r) @ '')$''"
    using b by (simp add: convert_xsd_pattern_to_json_def Let_def endswith_one)
  with q show ?thesis by simp
qed

text \<open>
  C3, idempotence of the canonicalizer. The pattern \<^verbatim>\<open>a|b\<close> is grouped and anchored to
  \<^verbatim>\<open>^(a|b)$\<close>. The group test looks at the first and last character, which are now the
  anchors, so a second pass does not see the group: it wraps the anchored pattern again
  and anchors the result, giving \<^verbatim>\<open>^(^(a|b)$)$\<close>.
\<close>

theorem canonicalize_twice_differs:
  "convert_xsd_pattern_to_json ''a|b'' = ''^(a|b)$''
   \<and> convert_xsd_pattern_to_json (convert_xsd_pattern_to_json ''a|b'') = ''^(^(a|b)$)$''
   \<and> convert_xsd_pattern_to_json (convert_xsd_pattern_to_json ''a|b'')
       \<noteq> convert_xsd_pattern_to_json ''a|b''"
  by (simp add: convert_xsd_pattern_to_json_def startswith_def endswith_def)

text \<open>
  C4, the anchoring invariant, as the code has it. The output of the canonicalizer starts
  with a caret and ends with a dollar sign, for every input. An anchor is added only where
  there is none: the output starts with two carets only when the input does, and ends
  with two dollar signs only when the input does.
\<close>

theorem canonicalize_anchors:
  "startswith (convert_xsd_pattern_to_json p) ''^''
   \<and> endswith (convert_xsd_pattern_to_json p) ''$''
   \<and> (startswith (convert_xsd_pattern_to_json p) ''^^'' \<longrightarrow> startswith p ''^^'')
   \<and> (endswith (convert_xsd_pattern_to_json p) ''$$'' \<longrightarrow> endswith p ''$$'')"
proof (intro conjI impI)
  show "startswith (convert_xsd_pattern_to_json p) ''^''" by (rule canonicalize_starts)
  show "endswith (convert_xsd_pattern_to_json p) ''$''" by (rule canonicalize_ends)
next
  assume "startswith (convert_xsd_pattern_to_json p) ''^^''"
  then show "startswith p ''^^''"
    by (cases p rule: remdups_adj.cases)
       (auto simp: convert_xsd_pattern_to_json_def Let_def split: if_splits)
next
  assume a: "endswith (convert_xsd_pattern_to_json p) ''$$''"
  have "endswith (convert_xsd_pattern_to_json (rev r)) ''$$'' \<Longrightarrow> endswith (rev r) ''$$''"
    for r
    by (cases r rule: remdups_adj.cases)
       (auto simp: convert_xsd_pattern_to_json_def Let_def endswith_rev split: if_splits)
  from this [of "rev p"] a show "endswith p ''$$''" by simp
qed

text \<open>The invariant at a pattern that brings its own doubled anchors.\<close>

theorem canonicalize_anchors_witness:
  "startswith (convert_xsd_pattern_to_json ''^^a$$'') ''^^''
   \<and> startswith ''^^a$$'' ''^^''
   \<and> endswith (convert_xsd_pattern_to_json ''^^a$$'') ''$$''
   \<and> endswith ''^^a$$'' ''$$''
   \<and> startswith (convert_xsd_pattern_to_json ''^^a$$'') ''^''
   \<and> endswith (convert_xsd_pattern_to_json ''^^a$$'') ''$''"
  using canonicalize_anchors [of "''^^a$$''"]
  by (simp add: convert_xsd_pattern_to_json_def endswith_def)

text \<open>
  The non-empty patterns \<^verbatim>\<open>^^a\<close> and \<^verbatim>\<open>a$$\<close> keep their doubled anchor: the output starts
  with two carets, or ends with two dollar signs.
\<close>

theorem canonicalize_exactly_once_counterexample:
  "convert_xsd_pattern_to_json ''^^a'' = ''^^a$''
   \<and> startswith (convert_xsd_pattern_to_json ''^^a'') ''^^''
   \<and> convert_xsd_pattern_to_json ''a$$'' = ''^a$$''
   \<and> endswith (convert_xsd_pattern_to_json ''a$$'') ''$$''"
  by (simp add: convert_xsd_pattern_to_json_def endswith_def)

section \<open>The type name normalizer\<close>

lemmas string_eval =
  lower_def lower_char_def upper_char_def upper_letters_def lower_letters_def
  is_sep_def is_space_def




section \<open>The complex type projector\<close>

lemma fold_add_element:
  "fold add_element es st =
     (fold (\<lambda>e. AList.update (local_name e) (get_property_type e)) es (fst st),
      snd st @ map local_name
                 (filter (\<lambda>e. case min_occurs e of Some n \<Rightarrow> n > 0 | None \<Rightarrow> False) es))"
  by (induction es arbitrary: st) (auto simp: add_element_def)

lemma fold_add_attribute:
  "fold add_attribute as st =
     (fold (\<lambda>a. AList.update (fst a) (get_attribute_type (snd a))) as (fst st),
      snd st @ map fst (filter (\<lambda>a. a_use (snd a) = Some ''required'') as))"
  by (induction as arbitrary: st) (auto simp: add_attribute_def)

lemma required_fields_eq:
  "required_fields type_obj =
     map local_name (required_elements type_obj) @ map fst (required_attributes type_obj)"
  by (simp add: required_fields_def collect_members_def fold_add_element fold_add_attribute
      required_elements_def required_attributes_def split: option.splits)

text \<open>
  C10, the shape of a projected complex type. The record is of kind object and forbids
  additional properties, whatever the type is (the projector takes no strict flag). It has
  the key \<^verbatim>\<open>required\<close> exactly when some element or attribute is required, and the value is
  then the list of the required names: elements first, then attributes, in source order.
\<close>

theorem complex_type_closed_and_required:
  "map_of (convert_complex_type type_obj name) ''type'' = Some (JStr ''object'')
   \<and> map_of (convert_complex_type type_obj name) ''additionalProperties'' = Some (JBool False)
   \<and> (map_of (convert_complex_type type_obj name) ''required'' \<noteq> None
        \<longleftrightarrow> required_elements type_obj \<noteq> [] \<or> required_attributes type_obj \<noteq> [])
   \<and> (required_elements type_obj \<noteq> [] \<or> required_attributes type_obj \<noteq> [] \<longrightarrow>
        map_of (convert_complex_type type_obj name) ''required''
          = Some (JList (map JStr (map local_name (required_elements type_obj)
                                    @ map fst (required_attributes type_obj)))))"
  by (auto simp: convert_complex_type_def Let_def required_fields_eq update_conv')

text \<open>
  A type with a mandatory element \<^verbatim>\<open>a\<close>, an optional element \<^verbatim>\<open>b\<close> and a required attribute
  \<^verbatim>\<open>id\<close>.
\<close>

theorem complex_type_closed_and_required_witness:
  "required_elements
     \<lparr>content_elements = Some [\<lparr>local_name = ''a'', e_type_name = Some ''date8'', min_occurs = Some 1\<rparr>,
                               \<lparr>local_name = ''b'', e_type_name = None, min_occurs = Some 0\<rparr>],
      attributes = Some [(''id'', \<lparr>a_type_name = None, a_use = Some ''required''\<rparr>)]\<rparr> \<noteq> []
   \<and> map_of (convert_complex_type
        \<lparr>content_elements = Some [\<lparr>local_name = ''a'', e_type_name = Some ''date8'', min_occurs = Some 1\<rparr>,
                                  \<lparr>local_name = ''b'', e_type_name = None, min_occurs = Some 0\<rparr>],
         attributes = Some [(''id'', \<lparr>a_type_name = None, a_use = Some ''required''\<rparr>)]\<rparr> ''T'')
        ''required'' = Some (JList [JStr ''a'', JStr ''id''])
   \<and> map_of (convert_complex_type
        \<lparr>content_elements = Some [\<lparr>local_name = ''a'', e_type_name = Some ''date8'', min_occurs = Some 1\<rparr>,
                                  \<lparr>local_name = ''b'', e_type_name = None, min_occurs = Some 0\<rparr>],
         attributes = Some [(''id'', \<lparr>a_type_name = None, a_use = Some ''required''\<rparr>)]\<rparr> ''T'')
        ''additionalProperties'' = Some (JBool False)"
  using complex_type_closed_and_required
    [of "\<lparr>content_elements = Some [\<lparr>local_name = ''a'', e_type_name = Some ''date8'', min_occurs = Some 1\<rparr>,
                                   \<lparr>local_name = ''b'', e_type_name = None, min_occurs = Some 0\<rparr>],
          attributes = Some [(''id'', \<lparr>a_type_name = None, a_use = Some ''required''\<rparr>)]\<rparr>" "''T''"]
  by (simp add: required_elements_def required_attributes_def)

section \<open>The overlays\<close>

lemma insert_if_absent_keeps:
  "map_of acc name = Some v \<Longrightarrow> map_of (insert_if_absent item acc) name = Some v"
  by (auto simp: insert_if_absent_def update_conv' dest!: map_of_SomeD intro: rev_image_eqI)

lemma fold_insert_if_absent_keeps:
  "map_of acc name = Some v \<Longrightarrow> map_of (fold insert_if_absent items acc) name = Some v"
  by (induction items arbitrary: acc) (simp_all add: insert_if_absent_keeps)

lemma insert_if_absent_keys:
  "fst ` set (insert_if_absent item acc) = insert (fst item) (fst ` set acc)"
  by (auto simp: insert_if_absent_def dom_update)

lemma fold_insert_if_absent_keys:
  "fst ` set (fold insert_if_absent items acc) = fst ` set items \<union> fst ` set acc"
  by (induction items arbitrary: acc) (auto simp: insert_if_absent_keys)

lemma fold_insert_if_absent_present:
  "fst ` set items \<subseteq> fst ` set acc \<Longrightarrow> fold insert_if_absent items acc = acc"
  by (induction items) (auto simp: insert_if_absent_def)

lemma fold_insert_if_absent_twice:
  "fold insert_if_absent items (fold insert_if_absent items acc)
     = fold insert_if_absent items acc"
  by (rule fold_insert_if_absent_present) (simp add: fold_insert_if_absent_keys)

lemma enhance_error_schemas_twice:
  "enhance_error_schemas (enhance_error_schemas doc) = enhance_error_schemas doc"
  by (simp add: enhance_error_schemas_def fold_insert_if_absent_twice split: option.splits)

lemma fold_update_other:
  "k \<notin> fst ` set items \<Longrightarrow>
   map_of (fold (\<lambda>item acc. AList.update (fst item) (snd item) acc) items s) k = map_of s k"
  by (induction items arbitrary: s) (auto simp: update_conv')

lemma fold_update_last:
  "distinct (map fst items) \<Longrightarrow> (n, d) \<in> set items \<Longrightarrow>
   map_of (fold (\<lambda>item acc. AList.update (fst item) (snd item) acc) items s) n = Some d"
proof (induction items arbitrary: s)
  case Nil
  then show ?case by simp
next
  case (Cons a items)
  show ?case
  proof (cases "(n, d) = a")
    case True
    with Cons.prems(1) have "n \<notin> fst ` set items" by force
    with True show ?thesis by (auto simp: fold_update_other update_conv')
  next
    case False
    with Cons show ?thesis by auto
  qed
qed

lemma fold_update_same:
  "\<forall>item \<in> set items. map_of s (fst item) = Some (snd item) \<Longrightarrow>
   fold (\<lambda>item acc. AList.update (fst item) (snd item) acc) items s = s"
  by (induction items) (auto simp: update_triv)

lemma distinct_enums: "distinct (map fst enums)"
  by (simp add: enums_def)

lemma add_enum_types_twice: "add_enum_types (add_enum_types s) = add_enum_types s"
  unfolding add_enum_types_def
  by (rule fold_update_same) (auto simp: fold_update_last distinct_enums)

text \<open>
  C7, insert-if-absent against overwrite. The error schema overlay leaves every schema
  that the document already has as it is, those named like an error schema included, and
  a second application changes nothing. The enum overlay ends with its own record under
  each of its names, whatever the schema set held before, and so does a second
  application.
\<close>

theorem overlay_insert_if_absent_and_overwrite:
  "(doc_schemas doc = Some s \<longrightarrow> map_of s name = Some v \<longrightarrow>
      (\<exists>s'. doc_schemas (enhance_error_schemas doc) = Some s' \<and> map_of s' name = Some v))
   \<and> enhance_error_schemas (enhance_error_schemas doc) = enhance_error_schemas doc
   \<and> ((n, d) \<in> set enums \<longrightarrow> map_of (add_enum_types t) n = Some d)
   \<and> add_enum_types (add_enum_types t) = add_enum_types t"
proof (intro conjI impI)
  assume "doc_schemas doc = Some s" and "map_of s name = Some v"
  then show "\<exists>s'. doc_schemas (enhance_error_schemas doc) = Some s' \<and> map_of s' name = Some v"
    by (auto simp: doc_schemas_def enhance_error_schemas_def fold_insert_if_absent_keeps
        split: option.splits)
next
  show "enhance_error_schemas (enhance_error_schemas doc) = enhance_error_schemas doc"
    by (rule enhance_error_schemas_twice)
next
  assume "(n, d) \<in> set enums"
  then show "map_of (add_enum_types t) n = Some d"
    by (simp add: add_enum_types_def fold_update_last distinct_enums)
next
  show "add_enum_types (add_enum_types t) = add_enum_types t"
    by (rule add_enum_types_twice)
qed

text \<open>
  A document with a schema of its own named \<^verbatim>\<open>ErrorCode\<close>, and a schema set with an entry of
  its own named \<^verbatim>\<open>RspnSrc\<close>.
\<close>

theorem overlay_insert_if_absent_and_overwrite_witness:
  "doc_schemas \<lparr>info = None, components = Some \<lparr>schemas = Some [(''ErrorCode'', JStr ''mine'')]\<rparr>\<rparr>
     = Some [(''ErrorCode'', JStr ''mine'')]
   \<and> map_of [(''ErrorCode'', JStr ''mine'')] ''ErrorCode'' = Some (JStr ''mine'')
   \<and> (\<exists>s'. doc_schemas (enhance_error_schemas
               \<lparr>info = None,
                components = Some \<lparr>schemas = Some [(''ErrorCode'', JStr ''mine'')]\<rparr>\<rparr>) = Some s'
            \<and> map_of s' ''ErrorCode'' = Some (JStr ''mine''))
   \<and> (''RspnSrc'', JObj [(''type'', JStr ''string''),
                          (''enum'', JList (map JStr [''I'', ''F'', ''N''])),
                          (''description'', JStr ''Response source'')]) \<in> set enums
   \<and> map_of (add_enum_types [(''RspnSrc'', JStr ''mine'')]) ''RspnSrc''
       = Some (JObj [(''type'', JStr ''string''),
                     (''enum'', JList (map JStr [''I'', ''F'', ''N''])),
                     (''description'', JStr ''Response source'')])"
proof -
  have h1: "doc_schemas \<lparr>info = None,
      components = Some \<lparr>schemas = Some [(''ErrorCode'', JStr ''mine'')]\<rparr>\<rparr>
     = Some [(''ErrorCode'', JStr ''mine'')]"
    by (simp add: doc_schemas_def)
  have h2: "map_of [(''ErrorCode'', JStr ''mine'')] ''ErrorCode'' = Some (JStr ''mine'')"
    by simp
  have h3: "(''RspnSrc'', JObj [(''type'', JStr ''string''),
                          (''enum'', JList (map JStr [''I'', ''F'', ''N''])),
                          (''description'', JStr ''Response source'')]) \<in> set enums"
    by (simp add: enums_def)
  from overlay_insert_if_absent_and_overwrite
    [of "\<lparr>info = None, components = Some \<lparr>schemas = Some [(''ErrorCode'', JStr ''mine'')]\<rparr>\<rparr>"
        "[(''ErrorCode'', JStr ''mine'')]" "''ErrorCode''" "JStr ''mine''"
        "''RspnSrc''" "JObj [(''type'', JStr ''string''),
                          (''enum'', JList (map JStr [''I'', ''F'', ''N''])),
                          (''description'', JStr ''Response source'')]"
        "[(''RspnSrc'', JStr ''mine'')]"]
    h1 h2 h3
  show ?thesis by blast
qed





section \<open>The registry lookup\<close>

lemma find_schema_key_sound:
  "find_schema_key_case_insensitive schema_mappings schema_name = Some key \<Longrightarrow>
   key \<in> fst ` set schema_mappings \<and> lower key = lower schema_name"
  by (auto simp: find_schema_key_case_insensitive_def find_Some_iff split: if_splits)



lemma copy_key_lookup:
  "map_of (copy_key k src dst) k' =
     (if k' = k \<and> map_of src k \<noteq> None then map_of src k else map_of dst k')"
  by (auto simp: copy_key_def update_conv' split: option.splits)


section \<open>Top-level string schemas\<close>





section \<open>The property enhancer\<close>

lemma restore_key_lookup:
  "map_of (restore_key k original dst) k' =
     (if k' = k \<and> original \<noteq> None \<and> truthy (the original) then original else map_of dst k')"
  by (auto simp: restore_key_def update_conv' split: option.splits)

lemma copy_validation_metadata:
  "k \<in> set metadata_keys \<Longrightarrow> map_of (copy_validation source_schema d) k = map_of d k"
  by (auto simp: metadata_keys_def copy_validation_def Let_def copy_key_lookup restore_key_lookup)

lemma found_key_in_registry:
  "found_key schema_mappings schema_name = Some key \<Longrightarrow> map_of schema_mappings key \<noteq> None"
  by (auto simp: found_key_def map_of_eq_None_iff dest: find_schema_key_sound
      split: option.splits if_splits)

lemma enhance_property_loop_dict:
  "\<exists>d'. enhance_property_loop schema_mappings fm prop_name (JObj d) = Inr (JObj d')
        \<and> (\<forall>k \<in> set metadata_keys. map_of d' k = map_of d k)"
proof (induction fm)
  case Nil
  then show ?case by simp
next
  case (Cons a fm)
  obtain field_pattern schema_type where a: "a = (field_pattern, schema_type)"
    by (cases a)
  show ?case
  proof (cases "found_key schema_mappings schema_type")
    case None
    with Cons a show ?thesis by simp
  next
    case (Some key)
    then obtain source_schema where "map_of schema_mappings key = Some source_schema"
      using found_key_in_registry by blast
    with Cons a Some show ?thesis
      by (simp add: copy_validation_metadata)
  qed
qed

lemma enhance_property_dict:
  "is_dict prop_def \<Longrightarrow>
   \<exists>prop_def'. enhance_property schema_mappings prop_name prop_def = Inr prop_def'
        \<and> is_dict prop_def'
        \<and> (\<forall>k \<in> set metadata_keys. attribute prop_def' k = attribute prop_def k)"
proof -
  assume "is_dict prop_def"
  then obtain d where d: "prop_def = JObj d" by (cases prop_def) simp_all
  from enhance_property_loop_dict [of schema_mappings field_mappings prop_name d]
  show ?thesis
    by (auto simp: d enhance_property_def attribute_def)
qed

lemma enhance_property_metadata:
  assumes "enhance_property schema_mappings prop_name prop_def = Inr prop_def'"
  shows "\<forall>k \<in> set metadata_keys. attribute prop_def' k = attribute prop_def k"
proof (cases "is_dict prop_def")
  case True
  from enhance_property_dict [OF True, of schema_mappings prop_name] assms
  show ?thesis by auto
next
  case False
  have "enhance_property_loop schema_mappings fm prop_name prop_def = Inr prop_def'
        \<Longrightarrow> prop_def' = prop_def" for fm
    using False
    by (induction fm) (auto split: option.splits if_splits json.splits)
  from this [of field_mappings] assms have "prop_def' = prop_def"
    by (simp add: enhance_property_def)
  then show ?thesis by simp
qed

lemma enhance_properties_success:
  "\<forall>item \<in> set props. is_dict (snd item) \<Longrightarrow>
   \<exists>props'. enhance_properties schema_mappings props = Inr props'"
proof (induction props)
  case Nil
  then show ?case by simp
next
  case (Cons a props)
  obtain prop_name prop_def where a: "a = (prop_name, prop_def)" by (cases a)
  with Cons.prems have "is_dict prop_def" by simp
  from enhance_property_dict [OF this, of schema_mappings prop_name]
  obtain prop_def' where "enhance_property schema_mappings prop_name prop_def = Inr prop_def'"
    by blast
  moreover from Cons obtain props' where "enhance_properties schema_mappings props = Inr props'"
    by auto
  ultimately show ?case by (simp add: a)
qed

lemma enhance_properties_metadata:
  "enhance_properties schema_mappings props = Inr props' \<Longrightarrow>
   length props' = length props
   \<and> (\<forall>i < length props. fst (props' ! i) = fst (props ! i)
         \<and> (\<forall>k \<in> set metadata_keys.
               attribute (snd (props' ! i)) k = attribute (snd (props ! i)) k))"
proof (induction props arbitrary: props')
  case Nil
  then show ?case by simp
next
  case (Cons a props)
  obtain prop_name prop_def where a: "a = (prop_name, prop_def)" by (cases a)
  from Cons.prems a obtain prop_def' rest'
    where p: "enhance_property schema_mappings prop_name prop_def = Inr prop_def'"
      and r: "enhance_properties schema_mappings props = Inr rest'"
      and e: "props' = (prop_name, prop_def') # rest'"
    by (auto split: sum.splits)
  note m = enhance_property_metadata [OF p]
  note ih = Cons.IH [OF r]
  show ?case
  proof (intro conjI allI impI)
    show "length props' = length (a # props)" using ih e by simp
  next
    fix i assume "i < length (a # props)"
    then show "fst (props' ! i) = fst ((a # props) ! i)"
      using ih e a by (cases i) simp_all
  next
    fix i assume "i < length (a # props)"
    then show "\<forall>k \<in> set metadata_keys.
               attribute (snd (props' ! i)) k = attribute (snd ((a # props) ! i)) k"
      using ih e a m by (cases i) simp_all
  qed
qed

lemma enhance_schema_object_success:
  "well_formed_schema (JObj d) \<Longrightarrow>
   \<exists>d'. enhance_schema_object schema_mappings d strict_mode = Inr d'"
proof (cases "map_of d ''type'' = Some (JStr ''object'')")
  case False
  then show ?thesis by (simp add: enhance_schema_object_def)
next
  case True
  assume w: "well_formed_schema (JObj d)"
  show ?thesis
  proof (cases "map_of d ''properties''")
    case None
    with True show ?thesis by (simp add: enhance_schema_object_def update_conv')
  next
    case (Some p)
    with w True obtain props where p: "p = JObj props"
      and a: "\<forall>item \<in> set props. is_dict (snd item)"
      by (cases p) (auto simp: well_formed_schema_def list_all_iff)
    from enhance_properties_success [OF a, of schema_mappings] True Some p
    show ?thesis by (auto simp: enhance_schema_object_def update_conv')
  qed
qed

lemma enhance_schema_object_metadata:
  assumes "map_of schema ''type'' = Some (JStr ''object'')"
    and "map_of schema ''properties'' = Some (JObj props)"
    and "enhance_schema_object schema_mappings schema strict_mode = Inr schema'"
  shows "map_of schema' ''type'' = Some (JStr ''object'')
         \<and> (\<exists>props'. map_of schema' ''properties'' = Some (JObj props')
                 \<and> length props' = length props
                 \<and> (\<forall>j < length props. fst (props' ! j) = fst (props ! j)
                      \<and> (\<forall>k \<in> set metadata_keys.
                            attribute (snd (props' ! j)) k = attribute (snd (props ! j)) k)))"
proof -
  from assms obtain props'
    where p: "enhance_properties schema_mappings props = Inr props'"
      and s: "map_of schema' ''properties'' = Some (JObj props')"
      and t: "map_of schema' ''type'' = Some (JStr ''object'')"
    by (auto simp: enhance_schema_object_def update_conv' split: sum.splits if_splits)
  from enhance_properties_metadata [OF p] s t show ?thesis by blast
qed

lemma enhance_top_level_schema_success:
  "\<exists>d'. enhance_top_level_schema schema_mappings name d = Inr d'"
proof -
  have f: "\<exists>d'. fallback_path schema_mappings name d = Inr d'"
    by (auto simp: fallback_path_def split: option.splits dest: found_key_in_registry)
  show ?thesis
    using f
    by (auto simp: enhance_top_level_schema_def split: option.splits
        dest: found_key_in_registry)
qed

lemma enhance_top_level_schema_object:
  "map_of d ''type'' = Some (JStr ''object'') \<Longrightarrow>
   enhance_top_level_schema schema_mappings name d = Inr d"
  by (simp add: enhance_top_level_schema_def)

lemma enhance_existing_schemas_success:
  "\<forall>item \<in> set schema_set. well_formed_schema (snd item) \<Longrightarrow>
   \<exists>schema_set'. enhance_existing_schemas schema_mappings schema_set strict_mode = Inr schema_set'"
proof (induction schema_set)
  case Nil
  then show ?case by simp
next
  case (Cons a schema_set)
  obtain name schema where a: "a = (name, schema)" by (cases a)
  from Cons obtain rest'
    where r: "enhance_existing_schemas schema_mappings schema_set strict_mode = Inr rest'"
    by auto
  show ?case
  proof (cases schema)
    case (JObj d)
    with Cons.prems a have "well_formed_schema (JObj d)" by simp
    from enhance_schema_object_success [OF this, of schema_mappings strict_mode]
    obtain d' where d': "enhance_schema_object schema_mappings d strict_mode = Inr d'" by blast
    from enhance_top_level_schema_success [of schema_mappings name d']
    obtain d'' where "enhance_top_level_schema schema_mappings name d' = Inr d''" by blast
    with d' r a JObj show ?thesis by simp
  qed (use r a in simp_all)
qed

lemma enhance_existing_schemas_nth:
  "enhance_existing_schemas schema_mappings schema_set strict_mode = Inr schema_set' \<Longrightarrow>
   i < length schema_set \<Longrightarrow> schema_set ! i = (name, JObj d) \<Longrightarrow>
   \<exists>d' d''. enhance_schema_object schema_mappings d strict_mode = Inr d'
        \<and> enhance_top_level_schema schema_mappings name d' = Inr d''
        \<and> schema_set' ! i = (name, JObj d'')"
proof (induction schema_set arbitrary: i schema_set')
  case Nil
  then show ?case by simp
next
  case (Cons a schema_set)
  obtain n schema where a: "a = (n, schema)" by (cases a)
  from Cons.prems(1) a obtain schema1 rest'
    where r: "enhance_existing_schemas schema_mappings schema_set strict_mode = Inr rest'"
      and e: "schema_set' = (n, schema1) # rest'"
      and h: "(case schema of
              JObj d \<Rightarrow>
                (case enhance_schema_object schema_mappings d strict_mode of
                   Inl e \<Rightarrow> Inl e
                 | Inr d' \<Rightarrow>
                    (case enhance_top_level_schema schema_mappings n d' of
                       Inl e \<Rightarrow> Inl e
                     | Inr d'' \<Rightarrow> Inr (JObj d'')))
            | _ \<Rightarrow> Inr schema) = Inr schema1"
    by (auto split: sum.splits)
  show ?case
  proof (cases i)
    case 0
    with Cons.prems(3) a have "n = name" "schema = JObj d" by simp_all
    with h e 0 show ?thesis by (auto split: sum.splits)
  next
    case (Suc j)
    with Cons.prems have "j < length schema_set" "schema_set ! j = (name, JObj d)" by simp_all
    from Cons.IH [OF r this] e Suc show ?thesis by simp
  qed
qed

text \<open>
  C2, metadata preservation. When every schema entry is well formed (the properties of an
  object-kind schema are a dict of dicts), the enhancement of the schema set succeeds.
  Whenever it succeeds, an object-kind schema with properties is again a schema with the
  same property names in the same order, and each property has the description, example
  and externalDocs it had before (the same value, or none as before), whether or not a
  field mapping matched its name.
\<close>

theorem metadata_preserved:
  "((\<forall>item \<in> set schema_set. well_formed_schema (snd item)) \<longrightarrow>
      (\<exists>schema_set'. enhance_existing_schemas schema_mappings schema_set strict_mode
                        = Inr schema_set'))
   \<and> (\<forall>schema_set' i name schema props.
         enhance_existing_schemas schema_mappings schema_set strict_mode = Inr schema_set'
         \<longrightarrow> i < length schema_set \<longrightarrow> schema_set ! i = (name, JObj schema)
         \<longrightarrow> map_of schema ''type'' = Some (JStr ''object'')
         \<longrightarrow> map_of schema ''properties'' = Some (JObj props)
         \<longrightarrow> (\<exists>schema' props'.
                schema_set' ! i = (name, JObj schema')
                \<and> map_of schema' ''properties'' = Some (JObj props')
                \<and> length props' = length props
                \<and> (\<forall>j < length props. fst (props' ! j) = fst (props ! j)
                      \<and> (\<forall>k \<in> set metadata_keys.
                            attribute (snd (props' ! j)) k = attribute (snd (props ! j)) k))))"
proof (intro conjI allI impI)
  assume "\<forall>item \<in> set schema_set. well_formed_schema (snd item)"
  then show "\<exists>schema_set'. enhance_existing_schemas schema_mappings schema_set strict_mode
                        = Inr schema_set'"
    by (rule enhance_existing_schemas_success)
next
  fix schema_set' i name schema props
  assume r: "enhance_existing_schemas schema_mappings schema_set strict_mode = Inr schema_set'"
    and i: "i < length schema_set" "schema_set ! i = (name, JObj schema)"
    and t: "map_of schema ''type'' = Some (JStr ''object'')"
    and p: "map_of schema ''properties'' = Some (JObj props)"
  from enhance_existing_schemas_nth [OF r i] obtain d' d''
    where o: "enhance_schema_object schema_mappings schema strict_mode = Inr d'"
      and l: "enhance_top_level_schema schema_mappings name d' = Inr d''"
      and n: "schema_set' ! i = (name, JObj d'')"
    by blast
  note m = enhance_schema_object_metadata [OF t p o]
  then have "map_of d' ''type'' = Some (JStr ''object'')" by simp
  with l have "d'' = d'" by (simp add: enhance_top_level_schema_object)
  with m n show "\<exists>schema' props'.
                schema_set' ! i = (name, JObj schema')
                \<and> map_of schema' ''properties'' = Some (JObj props')
                \<and> length props' = length props
                \<and> (\<forall>j < length props. fst (props' ! j) = fst (props ! j)
                      \<and> (\<forall>k \<in> set metadata_keys.
                            attribute (snd (props' ! j)) k = attribute (snd (props ! j)) k))"
    by blast
qed

text \<open>
  The property \<^verbatim>\<open>FundAcctID\<close> with a description, which matches the field mapping to
  \<^verbatim>\<open>String15\<close>, and the property \<^verbatim>\<open>Note\<close> with an example, which matches none.
\<close>

theorem metadata_preserved_witness:
  "list_all (\<lambda>item. well_formed_schema (snd item))
     [(''Account'', JObj
        [(''type'', JStr ''object''),
         (''properties'', JObj
            [(''FundAcctID'', JObj [(''description'', JStr ''Fund account'')]),
             (''Note'', JObj [(''example'', JStr ''n/a'')])])])]
   \<and> enhance_existing_schemas
     [(''String15'', [(''type'', JStr ''string''), (''maxLength'', JInt 15),
                      (''description'', JStr ''Up to 15 characters'')])]
     [(''Account'', JObj
        [(''type'', JStr ''object''),
         (''properties'', JObj
            [(''FundAcctID'', JObj [(''description'', JStr ''Fund account'')]),
             (''Note'', JObj [(''example'', JStr ''n/a'')])])])]
     False
   = Inr [(''Account'', JObj
        [(''type'', JStr ''object''),
         (''properties'', JObj
            [(''FundAcctID'', JObj [(''description'', JStr ''Fund account''),
                                    (''type'', JStr ''string''), (''maxLength'', JInt 15)]),
             (''Note'', JObj [(''example'', JStr ''n/a'')])])])]"
proof -
  have w: "list_all (\<lambda>item. well_formed_schema (snd item))
     [(''Account'', JObj
        [(''type'', JStr ''object''),
         (''properties'', JObj
            [(''FundAcctID'', JObj [(''description'', JStr ''Fund account'')]),
             (''Note'', JObj [(''example'', JStr ''n/a'')])])])]"
    by (simp add: well_formed_schema_def)
  with metadata_preserved
    [of "[(''Account'', JObj
        [(''type'', JStr ''object''),
         (''properties'', JObj
            [(''FundAcctID'', JObj [(''description'', JStr ''Fund account'')]),
             (''Note'', JObj [(''example'', JStr ''n/a'')])])])]"
        "[(''String15'', [(''type'', JStr ''string''), (''maxLength'', JInt 15),
                      (''description'', JStr ''Up to 15 characters'')])]" False]
  have "\<exists>schema_set'. enhance_existing_schemas
     [(''String15'', [(''type'', JStr ''string''), (''maxLength'', JInt 15),
                      (''description'', JStr ''Up to 15 characters'')])]
     [(''Account'', JObj
        [(''type'', JStr ''object''),
         (''properties'', JObj
            [(''FundAcctID'', JObj [(''description'', JStr ''Fund account'')]),
             (''Note'', JObj [(''example'', JStr ''n/a'')])])])]
     False = Inr schema_set'"
    by (simp add: list_all_iff)
  with w show ?thesis
    by (simp add: enhance_schema_object_def enhance_top_level_schema_def
        enhance_property_def field_mappings_def
        found_key_def find_schema_key_case_insensitive_def copy_validation_def copy_key_def
        restore_key_def string_eval)
qed

section \<open>Schema entries that are not objects\<close>

lemma enhance_existing_schemas_skip:
  "\<not> is_dict schema \<Longrightarrow>
   enhance_existing_schemas schema_mappings ((name, schema) # rest) strict_mode =
     (case enhance_existing_schemas schema_mappings rest strict_mode of
        Inl e \<Rightarrow> Inl e
      | Inr rest' \<Rightarrow> Inr ((name, schema) # rest'))"
  by (cases schema) auto

lemma enhance_existing_schemas_no_dict:
  "\<forall>item \<in> set schema_set. \<not> is_dict (snd item) \<Longrightarrow>
   enhance_existing_schemas schema_mappings schema_set strict_mode = Inr schema_set"
proof (induction schema_set)
  case Nil
  then show ?case by simp
next
  case (Cons a schema_set)
  obtain name schema where a: "a = (name, schema)" by (cases a)
  with Cons show ?case by (simp add: enhance_existing_schemas_skip del: enhance_existing_schemas.simps)
qed

lemma enhance_existing_schemas_frame:
  "enhance_existing_schemas schema_mappings schema_set strict_mode = Inr schema_set' \<Longrightarrow>
   list_all2 (\<lambda>a b. fst a = fst b \<and> (is_dict (snd a) \<or> b = a)) schema_set schema_set'"
proof (induction schema_set arbitrary: schema_set')
  case Nil
  then show ?case by simp
next
  case (Cons a schema_set)
  obtain name schema where a: "a = (name, schema)" by (cases a)
  show ?case
  proof (cases "is_dict schema")
    case True
    with Cons a show ?thesis
      by (cases schema) (auto split: sum.splits)
  next
    case False
    with Cons a show ?thesis
      by (auto simp: enhance_existing_schemas_skip simp del: enhance_existing_schemas.simps split: sum.splits)
  qed
qed

lemma enhance_existing_schemas_fails_on_dicts:
  "isl (enhance_existing_schemas schema_mappings schema_set strict_mode)
     = isl (enhance_existing_schemas schema_mappings
              (filter (\<lambda>item. is_dict (snd item)) schema_set) strict_mode)"
proof (induction schema_set)
  case Nil
  then show ?case by simp
next
  case (Cons a schema_set)
  obtain name schema where a: "a = (name, schema)" by (cases a)
  show ?case
  proof (cases "is_dict schema")
    case True
    with Cons a show ?thesis
      by (cases schema) (auto split: sum.splits)
  next
    case False
    with Cons a show ?thesis
      by (auto simp: enhance_existing_schemas_skip simp del: enhance_existing_schemas.simps split: sum.splits)
  qed
qed

text \<open>
  C6, a schema entry that is not an object, as the code has it. Both passes over the
  schema set test each entry with \<^verbatim>\<open>isinstance\<close> and pass over the ones that are not dicts.
  Such an entry never makes the run fail: the enhancement fails exactly when it fails on
  the dict entries alone, and the validation pass gives what it gives on the dict entries
  alone. When the enhancement succeeds, the names are the same in the same order and
  every entry that is not a dict is unchanged. A schema set without any dict is returned
  as it is, without an error.
\<close>

theorem non_dict_schema_is_skipped:
  "isl (enhance_existing_schemas schema_mappings schema_set strict_mode)
     = isl (enhance_existing_schemas schema_mappings
              (filter (\<lambda>item. is_dict (snd item)) schema_set) strict_mode)
   \<and> apply_validations_to_schemas schema_set
     = apply_validations_to_schemas (filter (\<lambda>item. is_dict (snd item)) schema_set)
   \<and> (\<forall>schema_set'. enhance_existing_schemas schema_mappings schema_set strict_mode = Inr schema_set' \<longrightarrow>
         list_all2 (\<lambda>a b. fst a = fst b \<and> (is_dict (snd a) \<or> b = a)) schema_set schema_set')
   \<and> ((\<forall>item \<in> set schema_set. \<not> is_dict (snd item)) \<longrightarrow>
         enhance_existing_schemas schema_mappings schema_set strict_mode = Inr schema_set
         \<and> apply_validations_to_schemas schema_set = Inr ())"
proof (intro conjI allI impI)
  show "isl (enhance_existing_schemas schema_mappings schema_set strict_mode)
     = isl (enhance_existing_schemas schema_mappings
              (filter (\<lambda>item. is_dict (snd item)) schema_set) strict_mode)"
    by (rule enhance_existing_schemas_fails_on_dicts)
  show "apply_validations_to_schemas schema_set
     = apply_validations_to_schemas (filter (\<lambda>item. is_dict (snd item)) schema_set)"
    by (simp add: apply_validations_to_schemas_def)
next
  fix schema_set'
  assume "enhance_existing_schemas schema_mappings schema_set strict_mode = Inr schema_set'"
  then show "list_all2 (\<lambda>a b. fst a = fst b \<and> (is_dict (snd a) \<or> b = a)) schema_set schema_set'"
    by (rule enhance_existing_schemas_frame)
next
  assume n: "\<forall>item \<in> set schema_set. \<not> is_dict (snd item)"
  then show "enhance_existing_schemas schema_mappings schema_set strict_mode = Inr schema_set"
    by (rule enhance_existing_schemas_no_dict)
  from n have "filter (\<lambda>item. is_dict (snd item)) schema_set = []"
    by (simp add: filter_empty_conv)
  then show "apply_validations_to_schemas schema_set = Inr ()"
    by (simp add: apply_validations_to_schemas_def)
qed

text \<open>A schema set of a string and a number.\<close>

theorem non_dict_schema_is_skipped_witness:
  "list_all (\<lambda>item. \<not> is_dict (snd item)) [(''Broken'', JStr ''oops''), (''Count'', JInt 3)]
   \<and> enhance_existing_schemas [(''Date8'', [(''type'', JStr ''string'')])]
        [(''Broken'', JStr ''oops''), (''Count'', JInt 3)] True
      = Inr [(''Broken'', JStr ''oops''), (''Count'', JInt 3)]
   \<and> apply_validations_to_schemas [(''Broken'', JStr ''oops''), (''Count'', JInt 3)] = Inr ()"
  using non_dict_schema_is_skipped
    [of "[(''Date8'', [(''type'', JStr ''string'')])]"
        "[(''Broken'', JStr ''oops''), (''Count'', JInt 3)]" True]
  by (simp add: apply_validations_to_schemas_def)

text \<open>
  The entry \<^verbatim>\<open>Broken\<close> is a string where a schema object is expected. The run does not fail:
  the entry is returned as it was, and the object entry after it is enhanced.
\<close>

theorem non_dict_schema_counterexample:
  "\<not> is_dict (JStr ''oops'')
   \<and> enhance_existing_schemas [] [(''Broken'', JStr ''oops''), (''Order'', JObj [(''type'', JStr ''object'')])] True
      = Inr [(''Broken'', JStr ''oops''),
             (''Order'', JObj [(''type'', JStr ''object''), (''additionalProperties'', JBool False)])]
   \<and> apply_validations_to_schemas
        [(''Broken'', JStr ''oops''), (''Order'', JObj [(''type'', JStr ''object'')])] = Inr ()"
  by (simp add: enhance_schema_object_def enhance_top_level_schema_def
      apply_validations_to_schemas_def)


section \<open>The facet extractor\<close>

text \<open>
  Every pass writes its findings over the record it is given: the record after a pass is
  the record before it, overlaid with what the pass writes on an empty record.
\<close>

lemma fold_overlay:
  assumes "\<And>x jt. map_of (f x jt) = map_of jt ++ map_of (f x [])"
  shows "map_of (fold f xs jt) = map_of jt ++ map_of (fold f xs [])"
proof (induction xs arbitrary: jt)
  case Nil
  then show ?case by simp
next
  case (Cons x xs)
  have "map_of (fold f (x # xs) jt) = map_of (f x jt) ++ map_of (fold f xs [])"
    using Cons [of "f x jt"] by simp
  also have "\<dots> = map_of jt ++ (map_of (f x []) ++ map_of (fold f xs []))"
    by (simp add: assms [of x jt])
  also have "map_of (f x []) ++ map_of (fold f xs []) = map_of (fold f (x # xs) [])"
    using Cons [of "f x []"] by simp
  finally show ?case .
qed

lemma apply_facets_overlay:
  "map_of (apply_facets jt fm) = map_of jt ++ map_of (apply_facets [] fm)"
  by (simp add: apply_facets_def Let_def update_conv' split: option.splits)

lemma method1_overlay: "map_of (method1 t jt) = map_of jt ++ map_of (method1 t [])"
  by (simp add: method1_def apply_facets_overlay [of jt] split: option.splits)

lemma apply_restriction_overlay:
  "map_of (apply_restriction r jt) = map_of jt ++ map_of (apply_restriction r [])"
  by (simp add: apply_restriction_def apply_facets_overlay [of jt] split: option.splits)

lemma method2_overlay: "map_of (method2 t jt) = map_of jt ++ map_of (method2 t [])"
proof (cases "restrictions t")
  case None
  then show ?thesis by (simp add: method2_def)
next
  case (Some rs)
  with fold_overlay [of apply_restriction rs jt, OF apply_restriction_overlay]
  show ?thesis by (simp add: method2_def)
qed

lemma apply_constraint_overlay:
  "map_of (apply_constraint c jt) = map_of jt ++ map_of (apply_constraint c [])"
  by (cases c) (auto simp: update_conv' map_add_def fun_eq_iff)

lemma method3_overlay: "map_of (method3 t jt) = map_of jt ++ map_of (method3 t [])"
proof (cases "constraints t")
  case None
  then show ?thesis by (simp add: method3_def)
next
  case (Some cs)
  with fold_overlay [of apply_constraint cs jt, OF apply_constraint_overlay]
  show ?thesis by (simp add: method3_def)
qed

lemma first_pattern_overlay:
  "map_of (first_pattern ps jt) = map_of jt ++ map_of (first_pattern ps [])"
  by (simp add: first_pattern_def update_conv' split: list.splits)

lemma validator_enumeration_overlay:
  "map_of (validator_enumeration v jt) = map_of jt ++ map_of (validator_enumeration v [])"
  by (simp add: validator_enumeration_def update_conv' split: option.splits)

lemma validator_facet_overlay:
  "map_of (validator_facet v jt) = map_of jt ++ map_of (validator_facet v [])"
  by (auto simp: validator_facet_def update_conv' first_pattern_overlay [of _ jt]
      map_add_def fun_eq_iff split: option.splits)

lemma apply_validator_overlay:
  "map_of (apply_validator v jt) = map_of jt ++ map_of (apply_validator v [])"
proof -
  have "map_of (apply_validator v jt)
      = map_of jt ++ (map_of (validator_enumeration v []) ++ map_of (validator_facet v []))"
    by (simp add: apply_validator_def validator_facet_overlay [of v "validator_enumeration v jt"]
        validator_enumeration_overlay [of v jt])
  also have "map_of (validator_enumeration v []) ++ map_of (validator_facet v [])
      = map_of (apply_validator v [])"
    by (simp add: apply_validator_def validator_facet_overlay [of v "validator_enumeration v []"])
  finally show ?thesis .
qed

lemma method4_overlay: "map_of (method4 t jt) = map_of jt ++ map_of (method4 t [])"
proof (cases "validators t")
  case None
  then show ?thesis by (simp add: method4_def)
next
  case (Some vs)
  with fold_overlay [of apply_validator vs jt, OF apply_validator_overlay]
  show ?thesis by (simp add: method4_def)
qed

lemma scan_patterns_overlay:
  "map_of (scan_patterns pats jt) = map_of jt ++ map_of (scan_patterns pats [])"
  by (induction pats) (auto simp: update_conv' map_add_def fun_eq_iff split: option.splits)

lemma method5_overlay: "map_of (method5 t jt) = map_of jt ++ map_of (method5 t [])"
  by (simp add: method5_def scan_patterns_overlay [of _ jt] split: option.splits)

lemma apply_pattern_facet_overlay:
  "map_of (apply_pattern_facet v jt) = map_of jt ++ map_of (apply_pattern_facet v [])"
  by (simp add: apply_pattern_facet_def update_conv' split: option.splits)

lemma method6_overlay: "map_of (method6 t jt) = map_of jt ++ map_of (method6 t [])"
proof (cases "validators t")
  case None
  then show ?thesis by (simp add: method6_def)
next
  case (Some vs)
  with fold_overlay [of apply_pattern_facet vs jt, OF apply_pattern_facet_overlay]
  show ?thesis by (simp add: method6_def)
qed

lemma base_kind_other: "k \<noteq> ''type'' \<Longrightarrow> map_of (base_kind t jt) k = map_of jt k"
  by (simp add: base_kind_def update_conv' split: option.splits)

text \<open>
  C1, the merge of the strategies, as the code has it. Every strategy assigns the fields it
  finds without looking at what is there, so for each of minLength, maxLength, pattern and
  enum the value in the resulting record is the one discovered by the last strategy, in
  the order of the six passes, that discovered one (and the field is absent when none did).
  In particular the pattern that is kept is that of the last strategy which found one.
\<close>

theorem last_found_wins:
  assumes "k \<in> set constraint_fields"
  shows "map_of (convert_simple_type type_obj) k
           = last_found (map (\<lambda>method. discovered method type_obj k) strategies)"
proof -
  from assms have k: "k \<noteq> ''type''" by (auto simp: constraint_fields_def)
  have "map_of (convert_simple_type type_obj) k
      = (map_of [(''type'', JStr ''string'')] ++ map_of (method1 type_obj [])
          ++ map_of (method2 type_obj []) ++ map_of (method3 type_obj [])
          ++ map_of (method4 type_obj []) ++ map_of (method5 type_obj [])
          ++ map_of (method6 type_obj [])) k"
    unfolding convert_simple_type_def base_kind_other [OF k]
    by (simp only: method6_overlay [of _ "method5 _ _"] method5_overlay [of _ "method4 _ _"]
        method4_overlay [of _ "method3 _ _"] method3_overlay [of _ "method2 _ _"]
        method2_overlay [of _ "method1 _ _"] method1_overlay [of _ "[(''type'', JStr ''string'')]"])
  also have "\<dots> = last_found (map (\<lambda>method. discovered method type_obj k) strategies)"
    using k by (simp add: strategies_def discovered_def map_add_def split: option.splits)
  finally show ?thesis .
qed

text \<open>
  A type whose facets give the pattern \<^verbatim>\<open>a\<close> and whose inline constraints give the pattern
  \<^verbatim>\<open>b\<close>: the inline constraints are the last strategy that finds a pattern.
\<close>

theorem last_found_wins_witness:
  "''pattern'' \<in> set constraint_fields
   \<and> map_of (convert_simple_type
         \<lparr>facets = Some \<lparr>fm_minLength = Some 3, fm_maxLength = None, fm_length = None,
                          fm_pattern = Some ''a'', fm_enumeration = None\<rparr>,
           restrictions = None, base_type = Some (Some ''string''),
           constraints = Some [MinLength 5, Pattern ''b''],
           validators = None, patterns = None, python_type = None\<rparr>) ''pattern''
       = Some (JStr ''^b$'')"
proof -
  have h: "''pattern'' \<in> set constraint_fields"
    by (simp add: constraint_fields_def)
  have "last_found (map (\<lambda>method. discovered method
         \<lparr>facets = Some \<lparr>fm_minLength = Some 3, fm_maxLength = None, fm_length = None,
                          fm_pattern = Some ''a'', fm_enumeration = None\<rparr>,
           restrictions = None, base_type = Some (Some ''string''),
           constraints = Some [MinLength 5, Pattern ''b''],
           validators = None, patterns = None, python_type = None\<rparr> ''pattern'') strategies) = Some (JStr ''^b$'')"
    by (simp add: strategies_def discovered_def method1_def method2_def method3_def
      method4_def method5_def method6_def apply_facets_def
      convert_xsd_pattern_to_json_def endswith_def Let_def)
  with last_found_wins [OF h, of "\<lparr>facets = Some \<lparr>fm_minLength = Some 3, fm_maxLength = None, fm_length = None,
                          fm_pattern = Some ''a'', fm_enumeration = None\<rparr>,
           restrictions = None, base_type = Some (Some ''string''),
           constraints = Some [MinLength 5, Pattern ''b''],
           validators = None, patterns = None, python_type = None\<rparr>"] h
  show ?thesis by simp
qed

text \<open>
  On that type the direct facet map, the first strategy, discovers the pattern \<^verbatim>\<open>^a$\<close> and
  the minimum length 3; the inline constraints, the third strategy, discover \<^verbatim>\<open>^b$\<close> and 5.
  The record has the later values, not the earlier ones.
\<close>

theorem first_found_wins_counterexample:
  "discovered method1
         \<lparr>facets = Some \<lparr>fm_minLength = Some 3, fm_maxLength = None, fm_length = None,
                          fm_pattern = Some ''a'', fm_enumeration = None\<rparr>,
           restrictions = None, base_type = Some (Some ''string''),
           constraints = Some [MinLength 5, Pattern ''b''],
           validators = None, patterns = None, python_type = None\<rparr> ''pattern''
     = Some (JStr ''^a$'')
   \<and> discovered method3
         \<lparr>facets = Some \<lparr>fm_minLength = Some 3, fm_maxLength = None, fm_length = None,
                          fm_pattern = Some ''a'', fm_enumeration = None\<rparr>,
           restrictions = None, base_type = Some (Some ''string''),
           constraints = Some [MinLength 5, Pattern ''b''],
           validators = None, patterns = None, python_type = None\<rparr> ''pattern''
     = Some (JStr ''^b$'')
   \<and> map_of (convert_simple_type
         \<lparr>facets = Some \<lparr>fm_minLength = Some 3, fm_maxLength = None, fm_length = None,
                          fm_pattern = Some ''a'', fm_enumeration = None\<rparr>,
           restrictions = None, base_type = Some (Some ''string''),
           constraints = Some [MinLength 5, Pattern ''b''],
           validators = None, patterns = None, python_type = None\<rparr>) ''pattern''
     = Some (JStr ''^b$'')
   \<and> discovered method1
         \<lparr>facets = Some \<lparr>fm_minLength = Some 3, fm_maxLength = None, fm_length = None,
                          fm_pattern = Some ''a'', fm_enumeration = None\<rparr>,
           restrictions = None, base_type = Some (Some ''string''),
           constraints = Some [MinLength 5, Pattern ''b''],
           validators = None, patterns = None, python_type = None\<rparr> ''minLength''
     = Some (JInt 3)
   \<and> discovered method3
         \<lparr>facets = Some \<lparr>fm_minLength = Some 3, fm_maxLength = None, fm_length = None,
                          fm_pattern = Some ''a'', fm_enumeration = None\<rparr>,
           restrictions = None, base_type = Some (Some ''string''),
           constraints = Some [MinLength 5, Pattern ''b''],
           validators = None, patterns = None, python_type = None\<rparr> ''minLength''
     = Some (JInt 5)
   \<and> map_of (convert_simple_type
         \<lparr>facets = Some \<lparr>fm_minLength = Some 3, fm_maxLength = None, fm_length = None,
                          fm_pattern = Some ''a'', fm_enumeration = None\<rparr>,
           restrictions = None, base_type = Some (Some ''string''),
           constraints = Some [MinLength 5, Pattern ''b''],
           validators = None, patterns = None, python_type = None\<rparr>) ''minLength''
     = Some (JInt 5)
   \<and> map_of (convert_simple_type
         \<lparr>facets = Some \<lparr>fm_minLength = Some 3, fm_maxLength = None, fm_length = None,
                          fm_pattern = Some ''a'', fm_enumeration = None\<rparr>,
           restrictions = None, base_type = Some (Some ''string''),
           constraints = Some [MinLength 5, Pattern ''b''],
           validators = None, patterns = None, python_type = None\<rparr>) ''pattern''
     \<noteq> discovered method1
         \<lparr>facets = Some \<lparr>fm_minLength = Some 3, fm_maxLength = None, fm_length = None,
                          fm_pattern = Some ''a'', fm_enumeration = None\<rparr>,
           restrictions = None, base_type = Some (Some ''string''),
           constraints = Some [MinLength 5, Pattern ''b''],
           validators = None, patterns = None, python_type = None\<rparr> ''pattern''
   \<and> map_of (convert_simple_type
         \<lparr>facets = Some \<lparr>fm_minLength = Some 3, fm_maxLength = None, fm_length = None,
                          fm_pattern = Some ''a'', fm_enumeration = None\<rparr>,
           restrictions = None, base_type = Some (Some ''string''),
           constraints = Some [MinLength 5, Pattern ''b''],
           validators = None, patterns = None, python_type = None\<rparr>) ''minLength''
     \<noteq> discovered method1
         \<lparr>facets = Some \<lparr>fm_minLength = Some 3, fm_maxLength = None, fm_length = None,
                          fm_pattern = Some ''a'', fm_enumeration = None\<rparr>,
           restrictions = None, base_type = Some (Some ''string''),
           constraints = Some [MinLength 5, Pattern ''b''],
           validators = None, patterns = None, python_type = None\<rparr> ''minLength''"
  by (simp add: discovered_def convert_simple_type_def method1_def method2_def method3_def
      method4_def method5_def method6_def base_kind_def apply_facets_def
      convert_xsd_pattern_to_json_def endswith_def startswith_def Let_def)

end
